theory Spec2Isabelle
  imports Main
begin

section \<open>Results and severities\<close>

text \<open>
  Modelled from the spec: the enum \<open>Severity\<close> (module \<open>atef.enums\<close>) is imported by
  \<open>procedure.py\<close> but is not among the sources. The spec gives its four members and
  their total order: success < warning < error < internal_error.
\<close>

datatype Severity = success | warning | error | internal_error

fun severity_value :: "Severity \<Rightarrow> nat" where
  "severity_value success = 0"
| "severity_value warning = 1"
| "severity_value error = 2"
| "severity_value internal_error = 3"

instantiation Severity :: linorder
begin

definition less_eq_Severity :: "Severity \<Rightarrow> Severity \<Rightarrow> bool" where
  "less_eq_Severity a b \<longleftrightarrow> severity_value a \<le> severity_value b"

definition less_Severity :: "Severity \<Rightarrow> Severity \<Rightarrow> bool" where
  "less_Severity a b \<longleftrightarrow> severity_value a < severity_value b"

instance
proof
  fix x y z :: Severity
  show "(x < y) = (x \<le> y \<and> \<not> y \<le> x)"
    by (auto simp: less_eq_Severity_def less_Severity_def)
  show "x \<le> x"
    by (simp add: less_eq_Severity_def)
  show "x \<le> y \<Longrightarrow> y \<le> z \<Longrightarrow> x \<le> z"
    by (simp add: less_eq_Severity_def)
  show "x \<le> y \<Longrightarrow> y \<le> x \<Longrightarrow> x = y"
    by (cases x; cases y) (simp_all add: less_eq_Severity_def)
  show "x \<le> y \<or> y \<le> x"
    by (auto simp: less_eq_Severity_def)
qed

end

text \<open>
  Python exceptions. Only instances of \<open>Exception\<close> are values of this type: the
  handlers of \<open>procedure.py\<close> are all \<open>except Exception\<close>. The class matters in one
  place (\<open>except OSError\<close>), so \<open>OSError\<close> stands for that class and its subclasses.
  \<open>exn_str\<close> is what \<open>str(ex)\<close> and an f-string print.
\<close>

datatype exn_class =
  OSError | ValueError | AttributeError | NotImplementedError | OtherException

datatype exn = Exn (exn_class: exn_class) (exn_str: string)

text \<open>
  The \<open>reason\<close> field of a Result holds \<open>None\<close>, a string, or (in
  \<open>PreparedValueToSignal.run\<close>) the exception object itself.
\<close>

datatype Reason = NoReason | Text string | Raised exn

fun fmt_reason :: "Reason \<Rightarrow> string" where
  "fmt_reason NoReason = ''None''"
| "fmt_reason (Text s) = s"
| "fmt_reason (Raised ex) = exn_str ex"

text \<open>The AttributeError of reading an attribute that an object of class \<open>cls\<close> lacks.\<close>

definition no_attribute :: "string \<Rightarrow> string \<Rightarrow> exn" where
  "no_attribute cls a =
     Exn AttributeError
       (CHR 0x27 # cls @ ''' object has no attribute '' @ CHR 0x27 # a @ [CHR 0x27])"

text \<open>
  Modelled from the spec: the dataclass \<open>Result\<close> (module \<open>atef.result\<close>) is not among
  the sources. It is a severity with a reason; \<open>Result()\<close>, which the code calls for
  "auto-success", has severity success and no reason.
\<close>

record Result =
  severity :: Severity
  reason :: Reason

definition Result_default :: Result where
  "Result_default = \<lparr>severity = success, reason = NoReason\<rparr>"

text \<open>
  Modelled from the spec: \<open>_summarize_result_severity\<close> (module \<open>atef.result\<close>) is not
  among the sources. Under the mode \<open>all_\<close>, the only one used, the aggregate is the worst
  severity of the inputs, and success for no input.
\<close>

datatype GroupResultMode = all_mode

fun summarize_result_severity :: "GroupResultMode \<Rightarrow> Result list \<Rightarrow> Severity" where
  "summarize_result_severity all_mode [] = success"
| "summarize_result_severity all_mode (r # rs) =
     max (severity r) (summarize_result_severity all_mode rs)"

section \<open>Edit model\<close>

text \<open>
  \<open>PrimitiveType\<close> is \<open>Union[str, int, bool, float]\<close> and \<open>Number\<close> is
  \<open>Union[int, float]\<close>; a float is carried as its literal, never computed with.
\<close>

datatype PrimitiveType = PStr string | PInt int | PBool bool | PFloat string

datatype Number = NInt int | NFloat string

text \<open>
  Modelled from the spec: \<open>Comparison\<close> (module \<open>atef.check\<close>) is not among the
  sources; the code here reads only its \<open>name\<close>.
\<close>

record Comparison =
  cmp_name :: "string option"

record Target =
  tgt_name :: "string option"
  device :: "string option"
  attr :: "string option"
  pv :: "string option"

record ValueToTarget = Target +
  val :: "PrimitiveType option"
  timeout :: "Number option"
  settle_time :: "Number option"

record ComparisonToTarget = Target +
  comparison :: "Comparison option"

record ComparisonToPlanData =
  plan_name :: "string option"
  data_points :: "int list"
  reduction_mode :: string
  pd_comparison :: "Comparison option"

datatype Check = ToTarget ComparisonToTarget | ToPlanData ComparisonToPlanData

record PlanOptions =
  po_name :: string
  plan :: string
  args :: "PrimitiveType list option"
  kwargs :: "(string \<times> PrimitiveType) list option"
  fixed_arguments :: "string list option"

text \<open>
  Modelled from the spec: the enum \<open>PlanDestination\<close> (module \<open>atef.enums\<close>) is not
  among the sources; a plan goes to the local engine or to a remote queue.
\<close>

datatype PlanDestination = local_dest | remote_queue

text \<open>
  The fields every step has. \<open>parent\<close> is a back-reference that no function modelled
  here reads; it is left out, which also keeps the tree a tree.
\<close>

record ProcedureStepBase =
  name :: "string option"
  description :: "string option"
  verify_required :: bool
  step_success_required :: bool

record SetValueFields =
  actions :: "ValueToTarget list"
  success_criteria :: "ComparisonToTarget list"
  halt_on_fail :: bool
  require_action_success :: bool

record PlanFields =
  plans :: "PlanOptions list"
  checks :: "Check list"
  destination :: PlanDestination
  plan_halt_on_fail :: bool
  require_plan_success :: bool

text \<open>The union \<open>AnyProcedure\<close>, one constructor per class.\<close>

datatype ProcedureStep =
    ProcedureGroup ProcedureStepBase "ProcedureStep list"
  | DescriptionStep ProcedureStepBase
  | PassiveStep ProcedureStepBase string
  | SetValueStep ProcedureStepBase SetValueFields
  | PlanStep ProcedureStepBase PlanFields

fun class_name :: "ProcedureStep \<Rightarrow> string" where
  "class_name (ProcedureGroup b steps) = ''ProcedureGroup''"
| "class_name (DescriptionStep b) = ''DescriptionStep''"
| "class_name (PassiveStep b filepath) = ''PassiveStep''"
| "class_name (SetValueStep b f) = ''SetValueStep''"
| "class_name (PlanStep b f) = ''PlanStep''"

fun step_base :: "ProcedureStep \<Rightarrow> ProcedureStepBase" where
  "step_base (ProcedureGroup b steps) = b"
| "step_base (DescriptionStep b) = b"
| "step_base (PassiveStep b filepath) = b"
| "step_base (SetValueStep b f) = b"
| "step_base (PlanStep b f) = b"

section \<open>Prepared model\<close>

text \<open>A resolved signal is a handle; its name identifies it.\<close>

datatype Signal = Signal (pvname: string)

text \<open>
  Modelled from the spec: \<open>PreparedFile\<close>, \<open>PreparedSignalComparison\<close> and
  \<open>PreparedComparisonException\<close> (modules \<open>atef.config\<close>, \<open>atef.exceptions\<close>) are not
  among the sources. A prepared passive file is a handle; a prepared comparison holds
  its own Result, which \<open>compare()\<close> sets.
\<close>

datatype PreparedFile = PreparedFile string

record PreparedSignalComparison =
  psc_name :: "string option"
  psc_signal :: "Signal option"
  psc_comparison :: "Comparison option"
  psc_result :: Result

record PreparedComparisonException =
  pce_exception :: exn
  pce_identifier :: string
  pce_message :: string
  pce_comparison :: "Comparison option"
  pce_name :: "string option"

record PreparedValueToSignal =
  pvts_name :: "string option"
  pvts_signal :: Signal
  pvts_value :: "PrimitiveType option"
  pvts_origin :: ValueToTarget
  pvts_result :: Result

record PlanItem =
  item_name :: string
  item_args :: "PrimitiveType list option"
  item_kwargs :: "(string \<times> PrimitiveType) list option"
  item_user_group :: string

record PreparedPlan =
  pp_name :: string
  pp_origin :: PlanOptions
  pp_item :: PlanItem
  pp_uuid :: "string option"
  pp_result :: Result

text \<open>The fields of \<open>PreparedProcedureStep\<close> (without \<open>parent\<close>).\<close>

record PreparedBase =
  p_name :: "string option"
  origin :: ProcedureStep
  combined_result :: Result
  verify_result :: Result
  step_result :: Result

record FailedStep =
  f_origin :: ProcedureStep
  f_combined_result :: Result
  f_verify_result :: Result
  f_step_result :: Result
  f_exception :: "exn option"

record PreparedSetValueFields =
  prepared_actions :: "PreparedValueToSignal list"
  prepare_action_failures :: "ValueToTarget list"
  prepared_criteria :: "PreparedSignalComparison list"
  prepare_criteria_failures :: "PreparedComparisonException list"

record PreparedPlanFields =
  prepared_plans :: "PreparedPlan list"
  prepared_plan_failures :: "PlanOptions list"
  prepared_checks :: "PreparedSignalComparison list"
  prepared_checks_failures :: "PreparedComparisonException list"

text \<open>
  The union \<open>AnyPreparedProcedure\<close>. A group keeps its prepared children in \<open>steps\<close>
  and the children that could not be prepared in \<open>prepare_failures\<close>.
\<close>

datatype Prepared =
    PreparedProcedureGroup PreparedBase "Prepared list" "FailedStep list"
  | PreparedDescriptionStep PreparedBase
  | PreparedPassiveStep PreparedBase "PreparedFile option"
  | PreparedSetValueStep PreparedBase PreparedSetValueFields
  | PreparedPlanStep PreparedBase PreparedPlanFields

fun base :: "Prepared \<Rightarrow> PreparedBase" where
  "base (PreparedProcedureGroup b steps fails) = b"
| "base (PreparedDescriptionStep b) = b"
| "base (PreparedPassiveStep b pf) = b"
| "base (PreparedSetValueStep b f) = b"
| "base (PreparedPlanStep b f) = b"

fun set_base :: "Prepared \<Rightarrow> PreparedBase \<Rightarrow> Prepared" where
  "set_base (PreparedProcedureGroup b steps fails) b' = PreparedProcedureGroup b' steps fails"
| "set_base (PreparedDescriptionStep b) b' = PreparedDescriptionStep b'"
| "set_base (PreparedPassiveStep b pf) b' = PreparedPassiveStep b' pf"
| "set_base (PreparedSetValueStep b f) b' = PreparedSetValueStep b' f"
| "set_base (PreparedPlanStep b f) b' = PreparedPlanStep b' f"

text \<open>
  \<open>isinstance(step, PreparedProcedureGroup)\<close>, and the two list fields of a group
  (no other class has them).
\<close>

fun is_group :: "Prepared \<Rightarrow> bool" where
  "is_group (PreparedProcedureGroup b steps fails) = True"
| "is_group p = False"

fun steps_of :: "Prepared \<Rightarrow> Prepared list" where
  "steps_of (PreparedProcedureGroup b steps fails) = steps"
| "steps_of p = []"

fun prepare_failures_of :: "Prepared \<Rightarrow> FailedStep list" where
  "prepare_failures_of (PreparedProcedureGroup b steps fails) = fails"
| "prepare_failures_of p = []"

section \<open>The result property\<close>

text \<open>
  \<open>PreparedProcedureStep.result\<close>. The property assigns \<open>self.combined_result\<close>, so the
  model returns the Result together with the updated fields.
\<close>

definition verify_part :: "PreparedBase \<Rightarrow> Result list \<times> string" where
  "verify_part self =
     (if verify_required (step_base (origin self)) then
        ([verify_result self],
         (if severity (verify_result self) \<noteq> success
          then ''Not Verified ('' @ fmt_reason (reason (verify_result self)) @ '')''
          else ''Verified ('' @ fmt_reason (reason (verify_result self)) @ '')''))
      else ([], ''''))"

definition success_part :: "PreparedBase \<Rightarrow> Result list \<times> string" where
  "success_part self =
     (if step_success_required (step_base (origin self)) then
        ([step_result self],
         (if severity (step_result self) \<noteq> success
          then '', Not Successful ('' @ fmt_reason (reason (step_result self)) @ '')''
          else ''''))
      else ([], ''''))"

definition step_result_property :: "PreparedBase \<Rightarrow> Result \<times> PreparedBase" where
  "step_result_property self =
     (let results = fst (verify_part self) @ fst (success_part self);
          rsn = snd (verify_part self) @ snd (success_part self)
      in if results = [] then
           (Result_default, self\<lparr>combined_result := Result_default\<rparr>)
         else
           (let r = \<lparr>severity = summarize_result_severity all_mode results, reason = Text rsn\<rparr>
            in (r, self\<lparr>combined_result := r\<rparr>)))"

section \<open>Preparation\<close>

text \<open>
  What preparation needs from outside \<open>procedure.py\<close>. \<open>incomplete_result\<close>,
  \<open>PreparedSignalComparison.from_signal\<close>, the happi lookup followed by \<open>getattr\<close>, the
  signal cache, and the loading of a passive checkout (\<open>ConfigurationFile.from_filename\<close>
  followed by \<open>PreparedFile.from_config\<close>) are functions of other modules; \<open>repr_str\<close>
  is Python's \<open>repr\<close> on strings. Each one that can raise returns \<open>Inl\<close> of the
  exception.
\<close>

record prep_env =
  incomplete_result :: Result
  repr_str :: "string \<Rightarrow> string"
  happi_signal :: "string \<Rightarrow> string \<Rightarrow> exn + Signal"
  cached_signal :: "string \<Rightarrow> exn + Signal"
  from_signal :: "Signal option \<Rightarrow> Comparison option \<Rightarrow> exn + PreparedSignalComparison"
  load_passive :: "string \<Rightarrow> exn + PreparedFile"

text \<open>Truth value of an \<open>Optional[str]\<close>: neither \<open>None\<close> nor empty.\<close>

fun truthy :: "string option \<Rightarrow> bool" where
  "truthy None = False"
| "truthy (Some s) = (s \<noteq> [])"

fun fmt_opt :: "string option \<Rightarrow> string" where
  "fmt_opt None = ''None''"
| "fmt_opt (Some s) = s"

text \<open>\<open>x or ''\<close> on an \<open>Optional[str]\<close>.\<close>

fun or_empty :: "string option \<Rightarrow> string" where
  "or_empty None = []"
| "or_empty (Some s) = s"

text \<open>\<open>Target.to_signal\<close>: every failure inside is caught and gives \<open>None\<close>.\<close>

definition to_signal :: "prep_env \<Rightarrow> 'a Target_scheme \<Rightarrow> Signal option" where
  "to_signal env self =
     (if truthy (device self) \<and> truthy (attr self) then
        (case happi_signal env (or_empty (device self)) (or_empty (attr self)) of
           Inl ex \<Rightarrow> None
         | Inr s \<Rightarrow> Some s)
      else if truthy (pv self) then
        (case cached_signal env (or_empty (pv self)) of
           Inl ex \<Rightarrow> None
         | Inr s \<Rightarrow> Some s)
      else None)"

text \<open>
  \<open>PreparedValueToSignal.from_origin\<close>: raises ValueError without a signal. The
  message of that error also prints the target; its only caller drops the exception.
\<close>

definition PreparedValueToSignal_from_origin ::
  "prep_env \<Rightarrow> ValueToTarget \<Rightarrow> exn + PreparedValueToSignal" where
  "PreparedValueToSignal_from_origin env orig =
     (case to_signal env orig of
        None \<Rightarrow> Inl (Exn ValueError ''Target specification invalid'')
      | Some s \<Rightarrow>
          Inr \<lparr>pvts_name = tgt_name orig, pvts_signal = s, pvts_value = val orig,
               pvts_origin = orig, pvts_result = incomplete_result env\<rparr>)"

text \<open>
  \<open>create_prepared_comparison\<close> on a \<open>ComparisonToTarget\<close>, the only kind a
  \<open>SetValueStep\<close> holds. A failure of \<open>from_signal\<close> is returned as a
  \<open>PreparedComparisonException\<close>; but the handler reads \<open>comp.name\<close>, which raises
  AttributeError out of the function when the check has no comparison.
\<close>

definition create_prepared_comparison ::
  "prep_env \<Rightarrow> ComparisonToTarget \<Rightarrow>
     exn + (PreparedComparisonException + PreparedSignalComparison)" where
  "create_prepared_comparison env check =
     (let signal = to_signal env check; comp = comparison check
      in case from_signal env signal comp of
           Inr psc \<Rightarrow> Inr (Inr psc)
         | Inl ex \<Rightarrow>
             (case comp of
                None \<Rightarrow> Inl (no_attribute ''NoneType'' ''name'')
              | Some c \<Rightarrow>
                  Inr (Inl \<lparr>pce_exception = ex,
                            pce_identifier = (case signal of None \<Rightarrow> [] | Some s \<Rightarrow> pvname s),
                            pce_message = ''Failed to initialize comparison'',
                            pce_comparison = comp,
                            pce_name = cmp_name c\<rparr>)))"

text \<open>A fresh \<open>PreparedProcedureStep\<close>: the three Results start incomplete.\<close>

definition new_base :: "prep_env \<Rightarrow> string option \<Rightarrow> ProcedureStep \<Rightarrow> PreparedBase" where
  "new_base env nm step =
     \<lparr>p_name = nm, origin = step, combined_result = incomplete_result env,
      verify_result = incomplete_result env, step_result = incomplete_result env\<rparr>"

text \<open>The two loops of \<open>PreparedSetValueStep.from_origin\<close>.\<close>

fun prepare_actions ::
  "prep_env \<Rightarrow> ValueToTarget list \<Rightarrow> PreparedSetValueFields \<Rightarrow> PreparedSetValueFields" where
  "prepare_actions env [] f = f"
| "prepare_actions env (value_to_target # rest) f =
     (case PreparedValueToSignal_from_origin env value_to_target of
        Inr prep \<Rightarrow>
          prepare_actions env rest (f\<lparr>prepared_actions := prepared_actions f @ [prep]\<rparr>)
      | Inl ex \<Rightarrow>
          prepare_actions env rest
            (f\<lparr>prepare_action_failures := prepare_action_failures f @ [value_to_target]\<rparr>))"

fun prepare_criteria ::
  "prep_env \<Rightarrow> ComparisonToTarget list \<Rightarrow> PreparedSetValueFields \<Rightarrow>
     exn + PreparedSetValueFields" where
  "prepare_criteria env [] f = Inr f"
| "prepare_criteria env (comp_to_target # rest) f =
     (case create_prepared_comparison env comp_to_target of
        Inl ex \<Rightarrow> Inl ex
      | Inr (Inl res) \<Rightarrow>
          prepare_criteria env rest
            (f\<lparr>prepare_criteria_failures := prepare_criteria_failures f @ [res]\<rparr>)
      | Inr (Inr res) \<Rightarrow>
          prepare_criteria env rest (f\<lparr>prepared_criteria := prepared_criteria f @ [res]\<rparr>))"

definition PreparedSetValueStep_from_origin ::
  "prep_env \<Rightarrow> ProcedureStepBase \<Rightarrow> SetValueFields \<Rightarrow> exn + Prepared" where
  "PreparedSetValueStep_from_origin env b sv =
     (let f0 = \<lparr>prepared_actions = [], prepare_action_failures = [],
                prepared_criteria = [], prepare_criteria_failures = []\<rparr>
      in case prepare_criteria env (success_criteria sv) (prepare_actions env (actions sv) f0) of
           Inl ex \<Rightarrow> Inl ex
         | Inr f \<Rightarrow> Inr (PreparedSetValueStep (new_base env (name b) (SetValueStep b sv)) f))"

text \<open>
  \<open>PreparedPassiveStep.from_origin\<close>: an OSError while loading leaves the step without
  a prepared file; any other exception leaves the function.
\<close>

definition PreparedPassiveStep_from_origin ::
  "prep_env \<Rightarrow> ProcedureStepBase \<Rightarrow> string \<Rightarrow> exn + Prepared" where
  "PreparedPassiveStep_from_origin env b filepath =
     (case load_passive env filepath of
        Inr pf \<Rightarrow>
          Inr (PreparedPassiveStep (new_base env (name b) (PassiveStep b filepath)) (Some pf))
      | Inl ex \<Rightarrow>
          (if exn_class ex = OSError
           then Inr (PreparedPassiveStep (new_base env (name b) (PassiveStep b filepath)) None)
           else Inl ex))"

definition PreparedDescriptionStep_from_origin :: "prep_env \<Rightarrow> ProcedureStepBase \<Rightarrow> Prepared" where
  "PreparedDescriptionStep_from_origin env b =
     PreparedDescriptionStep (new_base env (name b) (DescriptionStep b))"

text \<open>The handler of \<open>PreparedProcedureStep.from_origin\<close>.\<close>

definition failed_step :: "prep_env \<Rightarrow> ProcedureStep \<Rightarrow> exn \<Rightarrow> FailedStep" where
  "failed_step env step ex =
     \<lparr>f_origin = step,
      f_combined_result =
        \<lparr>severity = internal_error,
         reason = Text (''Failed to instantiate step: '' @ exn_str ex @ ''. Step is: ''
                   @ fmt_opt (name (step_base step)) @ '' (''
                   @ repr_str env (or_empty (description (step_base step)))
                   @ '')'')\<rparr>,
      f_verify_result = incomplete_result env,
      f_step_result = incomplete_result env,
      f_exception = Some ex\<rparr>"

text \<open>
  \<open>PreparedProcedureStep.from_origin\<close> is \<open>from_origin\<close>, the body of its \<open>try\<close> is
  \<open>dispatch\<close>, \<open>PreparedProcedureGroup.from_origin\<close> is \<open>group_from_origin\<close> and its
  loop over the children is \<open>prepare_steps\<close>. A \<open>PlanStep\<close> has no branch in the
  dispatch and reaches the final \<open>raise\<close>.
\<close>

fun from_origin :: "prep_env \<Rightarrow> ProcedureStep \<Rightarrow> FailedStep + Prepared"
and dispatch :: "prep_env \<Rightarrow> ProcedureStep \<Rightarrow> exn + Prepared"
and group_from_origin :: "prep_env \<Rightarrow> ProcedureStepBase \<Rightarrow> ProcedureStep list \<Rightarrow> Prepared"
and prepare_steps ::
  "prep_env \<Rightarrow> ProcedureStep list \<Rightarrow> Prepared list \<Rightarrow> FailedStep list \<Rightarrow>
     Prepared list \<times> FailedStep list"
where
  "from_origin env step =
     (case dispatch env step of
        Inr prepared \<Rightarrow> Inr prepared
      | Inl ex \<Rightarrow> Inl (failed_step env step ex))"
| "dispatch env (ProcedureGroup b steps) = Inr (group_from_origin env b steps)"
| "dispatch env (DescriptionStep b) = Inr (PreparedDescriptionStep_from_origin env b)"
| "dispatch env (PassiveStep b filepath) = PreparedPassiveStep_from_origin env b filepath"
| "dispatch env (SetValueStep b sv) = PreparedSetValueStep_from_origin env b sv"
| "dispatch env (PlanStep b pl) =
     Inl (Exn NotImplementedError ''Step type unsupported: <class 'atef.procedure.PlanStep'>'')"
| "group_from_origin env b steps =
     (case prepare_steps env steps [] [] of
        (ps, fs) \<Rightarrow> PreparedProcedureGroup (new_base env None (ProcedureGroup b steps)) ps fs)"
| "prepare_steps env [] ps fs = (ps, fs)"
| "prepare_steps env (step # rest) ps fs =
     (case from_origin env step of
        Inl prep_step \<Rightarrow> prepare_steps env rest ps (fs @ [prep_step])
      | Inr prep_step \<Rightarrow> prepare_steps env rest (ps @ [prep_step]) fs)"

section \<open>Running\<close>

text \<open>
  Running acts on hardware and on other modules. The world is the list of the outside
  calls made so far, oldest first, and each outside capability is a function of that
  history: \<open>signal.set(...)\<close> followed by \<open>status.wait\<close>, \<open>compare()\<close> of a prepared
  comparison, \<open>run_passive_step\<close>, \<open>run_in_local_RE\<close>, \<open>get_default_namespace\<close> and
  \<open>existing_plans_and_devices_from_nspace\<close>. A call is logged when it is made, whether
  or not it raises.
\<close>

datatype event =
    SignalSet Signal "PrimitiveType option" "Number option" "Number option"
  | Compared PreparedSignalComparison
  | PassiveRun PreparedFile
  | LocalRE PlanItem
  | DefaultNamespace
  | PlansAndDevices

type_synonym world = "event list"

record run_env =
  signal_set ::
    "world \<Rightarrow> Signal \<Rightarrow> PrimitiveType option \<Rightarrow> Number option \<Rightarrow> Number option \<Rightarrow> exn option"
  compare :: "world \<Rightarrow> PreparedSignalComparison \<Rightarrow> exn + Result"
  run_passive_step :: "world \<Rightarrow> PreparedFile \<Rightarrow> exn + Result"
  run_in_local_RE :: "world \<Rightarrow> PlanItem \<Rightarrow> exn + string"
  get_default_namespace :: "world \<Rightarrow> exn option"
  existing_plans_and_devices_from_nspace :: "world \<Rightarrow> exn option"

text \<open>
  \<open>PreparedValueToSignal.run\<close>: the write and the wait are inside \<open>try\<close>, so the
  function returns a Result whatever happens. \<open>timeout\<close> and \<open>settle_time\<close> are passed
  only when set.
\<close>

definition set_call :: "PreparedValueToSignal \<Rightarrow> event" where
  "set_call self =
     SignalSet (pvts_signal self) (pvts_value self)
       (timeout (pvts_origin self)) (settle_time (pvts_origin self))"

definition PreparedValueToSignal_run ::
  "run_env \<Rightarrow> world \<Rightarrow> PreparedValueToSignal \<Rightarrow> Result \<times> PreparedValueToSignal \<times> world" where
  "PreparedValueToSignal_run env w self =
     (let tmo = timeout (pvts_origin self); settle = settle_time (pvts_origin self);
          w' = w @ [set_call self]
      in case signal_set env w (pvts_signal self) (pvts_value self) tmo settle of
           Some ex \<Rightarrow>
             (let r = \<lparr>severity = error, reason = Raised ex\<rparr>
              in (r, self\<lparr>pvts_result := r\<rparr>, w'))
         | None \<Rightarrow> (Result_default, self\<lparr>pvts_result := Result_default\<rparr>, w'))"

text \<open>
  Modelled from the spec: \<open>PreparedSignalComparison.compare\<close> (module \<open>atef.config\<close>)
  is not among the sources. It executes the comparison and obtains a Result, which the
  prepared comparison keeps in \<open>result\<close>.
\<close>

definition compare_criterion ::
  "run_env \<Rightarrow> world \<Rightarrow> PreparedSignalComparison \<Rightarrow>
     exn option \<times> PreparedSignalComparison \<times> world" where
  "compare_criterion env w crit =
     (case compare env w crit of
        Inl ex \<Rightarrow> (Some ex, crit, w @ [Compared crit])
      | Inr r \<Rightarrow> (None, crit\<lparr>psc_result := r\<rparr>, w @ [Compared crit]))"

text \<open>
  Attribute reads on \<open>self.origin\<close>. \<open>origin\<close> is declared a \<open>ProcedureStep\<close>; an
  origin of a class without the attribute raises AttributeError at the read.
\<close>

fun origin_halt_on_fail :: "ProcedureStep \<Rightarrow> exn + bool" where
  "origin_halt_on_fail (SetValueStep b sv) = Inr (halt_on_fail sv)"
| "origin_halt_on_fail (PlanStep b pl) = Inr (plan_halt_on_fail pl)"
| "origin_halt_on_fail step = Inl (no_attribute (class_name step) ''halt_on_fail'')"

fun origin_require_action_success :: "ProcedureStep \<Rightarrow> exn + bool" where
  "origin_require_action_success (SetValueStep b sv) = Inr (require_action_success sv)"
| "origin_require_action_success step =
     Inl (no_attribute (class_name step) ''require_action_success'')"

fun origin_require_plan_success :: "ProcedureStep \<Rightarrow> exn + bool" where
  "origin_require_plan_success (PlanStep b pl) = Inr (require_plan_success pl)"
| "origin_require_plan_success step =
     Inl (no_attribute (class_name step) ''require_plan_success'')"

text \<open>
  The first loop of \<open>PreparedSetValueStep._run\<close>. It ends by running out of actions,
  by halting at an action, or by an exception; the actions run so far keep their new
  Results in each case.
\<close>

datatype loop_exit = Completed | Halted PreparedValueToSignal | Raise exn

fun run_actions ::
  "run_env \<Rightarrow> ProcedureStep \<Rightarrow> world \<Rightarrow> PreparedValueToSignal list \<Rightarrow>
     loop_exit \<times> PreparedValueToSignal list \<times> world" where
  "run_actions env orig w [] = (Completed, [], w)"
| "run_actions env orig w (prep_action # rest) =
     (case PreparedValueToSignal_run env w prep_action of
        (action_result, prep_action', w') \<Rightarrow>
          (case origin_halt_on_fail orig of
             Inl ex \<Rightarrow> (Raise ex, prep_action' # rest, w')
           | Inr halt \<Rightarrow>
               if halt \<and> severity action_result > success
               then (Halted prep_action', prep_action' # rest, w')
               else (case run_actions env orig w' rest of
                       (ex, rest', w'') \<Rightarrow> (ex, prep_action' # rest', w''))))"

text \<open>The second loop: every prepared criterion is compared, in order.\<close>

fun run_criteria ::
  "run_env \<Rightarrow> world \<Rightarrow> PreparedSignalComparison list \<Rightarrow>
     exn option \<times> PreparedSignalComparison list \<times> world" where
  "run_criteria env w [] = (None, [], w)"
| "run_criteria env w (prep_criteria # rest) =
     (case compare_criterion env w prep_criteria of
        (Some ex, crit', w') \<Rightarrow> (Some ex, crit' # rest, w')
      | (None, crit', w') \<Rightarrow>
          (case run_criteria env w' rest of
             (ex, rest', w'') \<Rightarrow> (ex, crit' # rest', w'')))"

text \<open>Python's \<open>repr\<close> of a list of optional names, as an f-string prints it.\<close>

fun join_comma :: "string list \<Rightarrow> string" where
  "join_comma [] = []"
| "join_comma [x] = x"
| "join_comma (x # y # rest) = x @ '', '' @ join_comma (y # rest)"

definition fmt_names :: "(string \<Rightarrow> string) \<Rightarrow> string option list \<Rightarrow> string" where
  "fmt_names rpr names =
     ''['' @ join_comma (map (\<lambda>n. case n of None \<Rightarrow> ''None'' | Some s \<Rightarrow> rpr s) names) @ '']''"

text \<open>
  The rest of \<open>PreparedSetValueStep._run\<close>, after both loops ended without halting.
\<close>

definition set_value_summary ::
  "(string \<Rightarrow> string) \<Rightarrow> ProcedureStep \<Rightarrow> PreparedSetValueFields \<Rightarrow> exn + Result" where
  "set_value_summary rpr orig f =
     (case origin_require_action_success orig of
        Inl ex \<Rightarrow> Inl ex
      | Inr req \<Rightarrow>
          if req \<and> prepare_action_failures f \<noteq> [] then
            Inr \<lparr>severity = error,
                 reason = Text (''One or more actions failed to initialize: ''
                            @ fmt_names rpr (map tgt_name (prepare_action_failures f)))\<rparr>
          else
            (let action_results = (if req then map pvts_result (prepared_actions f) else []);
                 criteria_results = map psc_result (prepared_criteria f)
             in if prepare_criteria_failures f \<noteq> [] then
                  Inr \<lparr>severity = error,
                       reason = Text (''One or more success criteria failed to initialize: ''
                                  @ fmt_names rpr (map pce_name (prepare_criteria_failures f)))\<rparr>
                else
                  Inr \<lparr>severity = summarize_result_severity all_mode
                                    (criteria_results @ action_results),
                       reason = NoReason\<rparr>))"

text \<open>
  \<open>PreparedSetValueStep._run\<close>. The result is what the method returns or raises, with
  the step and the world as it leaves them.
\<close>

definition PreparedSetValueStep_run ::
  "(string \<Rightarrow> string) \<Rightarrow> run_env \<Rightarrow> world \<Rightarrow> PreparedBase \<Rightarrow> PreparedSetValueFields \<Rightarrow>
     (exn + Result) \<times> Prepared \<times> world" where
  "PreparedSetValueStep_run rpr env w b f =
     (case run_actions env (origin b) w (prepared_actions f) of
        (Raise ex, acts, w1) \<Rightarrow>
          (Inl ex, PreparedSetValueStep b (f\<lparr>prepared_actions := acts\<rparr>), w1)
      | (Halted prep_action, acts, w1) \<Rightarrow>
          (let r = \<lparr>severity = error,
                    reason = Text (''action failed ('' @ fmt_opt (pvts_name prep_action)
                               @ ''), step halted'')\<rparr>
           in (Inr r,
               PreparedSetValueStep (b\<lparr>step_result := r\<rparr>) (f\<lparr>prepared_actions := acts\<rparr>),
               w1))
      | (Completed, acts, w1) \<Rightarrow>
          (case run_criteria env w1 (prepared_criteria f) of
             (Some ex, crits, w2) \<Rightarrow>
               (Inl ex,
                PreparedSetValueStep b (f\<lparr>prepared_actions := acts, prepared_criteria := crits\<rparr>),
                w2)
           | (None, crits, w2) \<Rightarrow>
               (let f' = f\<lparr>prepared_actions := acts, prepared_criteria := crits\<rparr>
                in (set_value_summary rpr (origin b) f', PreparedSetValueStep b f', w2))))"

text \<open>
  \<open>PreparedPlan.run\<close>. The branch for a destination other than the local one assigns
  an error Result and goes on: there is no \<open>return\<close> in it.
\<close>

definition PreparedPlan_run ::
  "run_env \<Rightarrow> world \<Rightarrow> PreparedPlan \<Rightarrow> PlanDestination \<Rightarrow>
     (exn + Result) \<times> PreparedPlan \<times> world" where
  "PreparedPlan_run env w self dest =
     (let self1 = (if dest \<noteq> local_dest
                   then self\<lparr>pp_result :=
                          \<lparr>severity = error,
                           reason = Text ''Only local RunEngine supported at this time''\<rparr>\<rparr>
                   else self)
      in case run_in_local_RE env w (pp_item self1) of
           Inl ex \<Rightarrow> (Inl ex, self1, w @ [LocalRE (pp_item self1)])
         | Inr uuid \<Rightarrow>
             (Inr Result_default,
              self1\<lparr>pp_uuid := Some uuid, pp_result := Result_default\<rparr>,
              w @ [LocalRE (pp_item self1)]))"

text \<open>
  \<open>PreparedPlanStep._run\<close>. After the two namespace calls the method reads
  \<open>self.prep_plans\<close>, an attribute the class does not have, so the statements after that
  read are never reached.
\<close>

definition PreparedPlanStep_run ::
  "(string \<Rightarrow> string) \<Rightarrow> run_env \<Rightarrow> world \<Rightarrow> PreparedBase \<Rightarrow> PreparedPlanFields \<Rightarrow>
     (exn + Result) \<times> Prepared \<times> world" where
  "PreparedPlanStep_run rpr env w b f =
     (case origin_require_plan_success (origin b) of
        Inl ex \<Rightarrow> (Inl ex, PreparedPlanStep b f, w)
      | Inr req \<Rightarrow>
          if req \<and> prepared_plan_failures f \<noteq> [] then
            (Inr \<lparr>severity = error,
                  reason = Text (''One or more actions failed to prepare: ''
                             @ fmt_names rpr (map (\<lambda>p. Some (po_name p))
                                 (prepared_plan_failures f)))\<rparr>,
             PreparedPlanStep b f, w)
          else
            (case get_default_namespace env w of
               Some ex \<Rightarrow> (Inl ex, PreparedPlanStep b f, w @ [DefaultNamespace])
             | None \<Rightarrow>
                 (case existing_plans_and_devices_from_nspace env (w @ [DefaultNamespace]) of
                    Some ex \<Rightarrow>
                      (Inl ex, PreparedPlanStep b f, w @ [DefaultNamespace, PlansAndDevices])
                  | None \<Rightarrow>
                      (Inl (no_attribute ''PreparedPlanStep'' ''prep_plans''), PreparedPlanStep b f,
                       w @ [DefaultNamespace, PlansAndDevices]))))"

text \<open>
  \<open>_run\<close>, by class. A group inherits the base method, which raises
  NotImplementedError; a group's \<open>run\<close> never calls it.
\<close>

fun step_run ::
  "(string \<Rightarrow> string) \<Rightarrow> run_env \<Rightarrow> world \<Rightarrow> Prepared \<Rightarrow> (exn + Result) \<times> Prepared \<times> world" where
  "step_run rpr env w (PreparedProcedureGroup b steps fails) =
     (Inl (Exn NotImplementedError []), PreparedProcedureGroup b steps fails, w)"
| "step_run rpr env w (PreparedDescriptionStep b) =
     (Inr Result_default, PreparedDescriptionStep b, w)"
| "step_run rpr env w (PreparedPassiveStep b None) =
     (Inr \<lparr>severity = error, reason = Text ''No passive checkout to run''\<rparr>,
      PreparedPassiveStep b None, w)"
| "step_run rpr env w (PreparedPassiveStep b (Some pf)) =
     (run_passive_step env w pf, PreparedPassiveStep b (Some pf), w @ [PassiveRun pf])"
| "step_run rpr env w (PreparedSetValueStep b f) = PreparedSetValueStep_run rpr env w b f"
| "step_run rpr env w (PreparedPlanStep b f) = PreparedPlanStep_run rpr env w b f"

section \<open>Results of a tree, and run\<close>

text \<open>The Result a group stores in \<open>step_result\<close>, in \<open>run\<close> and in \<open>result\<close> alike.\<close>

definition group_step_result :: "FailedStep list \<Rightarrow> Result list \<Rightarrow> Result" where
  "group_step_result fails results =
     (if fails \<noteq> [] then
        \<lparr>severity = error, reason = Text ''At least one step failed to initialize''\<rparr>
      else
        \<lparr>severity = summarize_result_severity all_mode results, reason = NoReason\<rparr>)"

text \<open>
  The \<open>result\<close> property of every prepared class. A group reads the property of each
  child, assigns its own \<open>step_result\<close>, and then behaves as the base class does; the
  other classes inherit the base property. The updated node is returned with the
  Result, since the property assigns fields.
\<close>

fun result_property :: "Prepared \<Rightarrow> Result \<times> Prepared"
and child_results :: "Prepared list \<Rightarrow> Result list \<times> Prepared list"
where
  "result_property (PreparedProcedureGroup b steps fails) =
     (case child_results steps of
        (results, steps') \<Rightarrow>
          (case step_result_property (b\<lparr>step_result := group_step_result fails results\<rparr>) of
             (r, b') \<Rightarrow> (r, PreparedProcedureGroup b' steps' fails)))"
| "result_property (PreparedDescriptionStep b) =
     (case step_result_property b of (r, b') \<Rightarrow> (r, PreparedDescriptionStep b'))"
| "result_property (PreparedPassiveStep b pf) =
     (case step_result_property b of (r, b') \<Rightarrow> (r, PreparedPassiveStep b' pf))"
| "result_property (PreparedSetValueStep b f) =
     (case step_result_property b of (r, b') \<Rightarrow> (r, PreparedSetValueStep b' f))"
| "result_property (PreparedPlanStep b f) =
     (case step_result_property b of (r, b') \<Rightarrow> (r, PreparedPlanStep b' f))"
| "child_results [] = ([], [])"
| "child_results (step # rest) =
     (case result_property step of
        (r, step') \<Rightarrow>
          (case child_results rest of
             (rs, rest') \<Rightarrow> (r # rs, step' # rest')))"

text \<open>\<open>FailedStep.result\<close>.\<close>

definition FailedStep_result :: "FailedStep \<Rightarrow> Result" where
  "FailedStep_result self = f_combined_result self"

text \<open>
  \<open>PreparedProcedureStep.run\<close>: an exception of \<open>_run\<close> becomes an internal_error
  Result; the Result is stored in \<open>step_result\<close> and the property is returned.
\<close>

definition caught :: "exn + Result \<Rightarrow> Result" where
  "caught outcome =
     (case outcome of
        Inl ex \<Rightarrow> \<lparr>severity = internal_error, reason = Text (exn_str ex)\<rparr>
      | Inr r \<Rightarrow> r)"

definition stash_and_return ::
  "(exn + Result) \<times> Prepared \<times> world \<Rightarrow> (exn + Result) \<times> Prepared \<times> world" where
  "stash_and_return after_run =
     (case after_run of
        (outcome, self1, w1) \<Rightarrow>
          (case result_property
                  (set_base self1 ((base self1)\<lparr>step_result := caught outcome\<rparr>)) of
             (r, self2) \<Rightarrow> (Inr r, self2, w1)))"

text \<open>
  \<open>run\<close> of every prepared class. \<open>PreparedProcedureGroup.run\<close> overrides the base
  method and has no handler: an exception from a child's \<open>run\<close> would leave it.
\<close>

fun run :: "(string \<Rightarrow> string) \<Rightarrow> run_env \<Rightarrow> world \<Rightarrow> Prepared \<Rightarrow> (exn + Result) \<times> Prepared \<times> world"
and run_steps ::
  "(string \<Rightarrow> string) \<Rightarrow> run_env \<Rightarrow> world \<Rightarrow> Prepared list \<Rightarrow>
     (exn + Result list) \<times> Prepared list \<times> world"
where
  "run rpr env w (PreparedProcedureGroup b steps fails) =
     (case run_steps rpr env w steps of
        (Inl ex, steps', w') \<Rightarrow> (Inl ex, PreparedProcedureGroup b steps' fails, w')
      | (Inr results, steps', w') \<Rightarrow>
          (case result_property
                  (PreparedProcedureGroup (b\<lparr>step_result := group_step_result fails results\<rparr>)
                     steps' fails) of
             (r, self') \<Rightarrow> (Inr r, self', w')))"
| "run rpr env w (PreparedDescriptionStep b) =
     stash_and_return (step_run rpr env w (PreparedDescriptionStep b))"
| "run rpr env w (PreparedPassiveStep b pf) =
     stash_and_return (step_run rpr env w (PreparedPassiveStep b pf))"
| "run rpr env w (PreparedSetValueStep b f) =
     stash_and_return (step_run rpr env w (PreparedSetValueStep b f))"
| "run rpr env w (PreparedPlanStep b f) =
     stash_and_return (step_run rpr env w (PreparedPlanStep b f))"
| "run_steps rpr env w [] = (Inr [], [], w)"
| "run_steps rpr env w (step # rest) =
     (case run rpr env w step of
        (Inl ex, step', w') \<Rightarrow> (Inl ex, step' # rest, w')
      | (Inr r, step', w') \<Rightarrow>
          (case run_steps rpr env w' rest of
             (Inl ex, rest', w'') \<Rightarrow> (Inl ex, step' # rest', w'')
           | (Inr rs, rest', w'') \<Rightarrow> (Inr (r # rs), step' # rest', w'')))"

section \<open>Running when \<open>_run\<close> returns no Result\<close>

text \<open>
  The annotations give \<open>_run\<close> and \<open>run_passive_step\<close> the return type
  \<open>Result\<close>, and the definitions above follow them. Python does not enforce an
  annotation: \<open>PreparedPassiveStep._run\<close> returns whatever \<open>run_passive_step\<close>
  returned, \<open>run\<close> assigns that object to \<open>step_result\<close>, and the \<open>result\<close>
  property is read after the \<open>try\<close> of \<open>run\<close>, not inside it. The definitions of
  this section follow the same statements with every result field holding a Result or
  \<open>None\<close>; reading \<open>.severity\<close> of \<open>None\<close> raises AttributeError.
\<close>

record StoredFields =
  s_origin :: ProcedureStep
  s_combined_result :: "Result option"
  s_verify_result :: "Result option"
  s_step_result :: "Result option"

text \<open>The fields of a step whose result fields all hold Results.\<close>

definition stored :: "PreparedBase \<Rightarrow> StoredFields" where
  "stored b =
     \<lparr>s_origin = origin b, s_combined_result = Some (combined_result b),
      s_verify_result = Some (verify_result b), s_step_result = Some (step_result b)\<rparr>"

text \<open>
  \<open>PreparedProcedureStep.result\<close> on such fields. The first read of each required
  field is \<open>.severity\<close>; an exception leaves the property before any assignment.
\<close>

definition stored_verify_part :: "StoredFields \<Rightarrow> exn + Result list \<times> string" where
  "stored_verify_part self =
     (if verify_required (step_base (s_origin self)) then
        (case s_verify_result self of
           None \<Rightarrow> Inl (no_attribute ''NoneType'' ''severity'')
         | Some v \<Rightarrow>
             Inr ([v],
                  (if severity v \<noteq> success
                   then ''Not Verified ('' @ fmt_reason (reason v) @ '')''
                   else ''Verified ('' @ fmt_reason (reason v) @ '')'')))
      else Inr ([], ''''))"

definition stored_success_part :: "StoredFields \<Rightarrow> exn + Result list \<times> string" where
  "stored_success_part self =
     (if step_success_required (step_base (s_origin self)) then
        (case s_step_result self of
           None \<Rightarrow> Inl (no_attribute ''NoneType'' ''severity'')
         | Some s \<Rightarrow>
             Inr ([s],
                  (if severity s \<noteq> success
                   then '', Not Successful ('' @ fmt_reason (reason s) @ '')''
                   else '''')))
      else Inr ([], ''''))"

definition stored_result_property :: "StoredFields \<Rightarrow> (exn + Result) \<times> StoredFields" where
  "stored_result_property self =
     (case stored_verify_part self of
        Inl ex \<Rightarrow> (Inl ex, self)
      | Inr (vs, vtext) \<Rightarrow>
          (case stored_success_part self of
             Inl ex \<Rightarrow> (Inl ex, self)
           | Inr (ss, stext) \<Rightarrow>
               if vs @ ss = [] then
                 (Inr Result_default, self\<lparr>s_combined_result := Some Result_default\<rparr>)
               else
                 (let r = \<lparr>severity = summarize_result_severity all_mode (vs @ ss),
                           reason = Text (vtext @ stext)\<rparr>
                  in (Inr r, self\<lparr>s_combined_result := Some r\<rparr>))))"

text \<open>
  \<open>PreparedProcedureStep.run\<close>, given what \<open>await self._run()\<close> did: it raised an
  exception, or it returned a Result or \<open>None\<close>. What the handler builds or what
  \<open>_run\<close> returned is assigned to \<open>step_result\<close>; then the property is read, and
  what it returns or raises is what \<open>run\<close> returns or raises.
\<close>

definition stored_run :: "exn + Result option \<Rightarrow> StoredFields \<Rightarrow> (exn + Result) \<times> StoredFields" where
  "stored_run after_run self =
     (let result = (case after_run of
                      Inl ex \<Rightarrow> Some \<lparr>severity = internal_error, reason = Text (exn_str ex)\<rparr>
                    | Inr v \<Rightarrow> v)
      in stored_result_property (self\<lparr>s_step_result := result\<rparr>))"

text \<open>
  \<open>PreparedPassiveStep._run\<close>, given what \<open>await run_passive_step(...)\<close> did.
\<close>

definition PreparedPassiveStep_run_value ::
  "PreparedFile option \<Rightarrow> exn + Result option \<Rightarrow> exn + Result option" where
  "PreparedPassiveStep_run_value prepared_passive_file passive =
     (case prepared_passive_file of
        None \<Rightarrow> Inr (Some \<lparr>severity = error, reason = Text ''No passive checkout to run''\<rparr>)
      | Some pf \<Rightarrow> passive)"

section \<open>Example inputs\<close>

text \<open>
  A concrete outside world for evaluating the definitions: no happi database, a signal
  cache that knows the PVs \<open>X\<close> and \<open>BAD\<close>, no passive checkout file on disk,
  comparisons that need a signal, and hardware on which every write to \<open>BAD\<close> fails.
\<close>

definition example_repr :: "string \<Rightarrow> string" where
  "example_repr s = ''<'' @ s @ ''>''"

definition example_prep_env :: prep_env where
  "example_prep_env =
     \<lparr>incomplete_result = \<lparr>severity = internal_error, reason = Text ''step incomplete''\<rparr>,
      repr_str = example_repr,
      happi_signal = (\<lambda>d a. Inl (Exn OtherException ''no happi database'')),
      cached_signal = (\<lambda>p. if p = ''X'' \<or> p = ''BAD'' then Inr (Signal p)
                           else Inl (Exn OtherException ''cannot connect'')),
      from_signal = (\<lambda>s c. case s of
                       None \<Rightarrow> Inl (Exn ValueError ''no signal'')
                     | Some sg \<Rightarrow>
                         Inr \<lparr>psc_name = None, psc_signal = s, psc_comparison = c,
                              psc_result = \<lparr>severity = internal_error,
                                            reason = Text ''step incomplete''\<rparr>\<rparr>),
      load_passive = (\<lambda>p. Inl (Exn OSError ''No such file or directory''))\<rparr>"

definition example_run_env :: run_env where
  "example_run_env =
     \<lparr>signal_set = (\<lambda>w s v t st. if s = Signal ''BAD''
                                  then Some (Exn OtherException ''write failed'') else None),
      compare = (\<lambda>w c. Inr Result_default),
      run_passive_step = (\<lambda>w f. Inr Result_default),
      run_in_local_RE = (\<lambda>w i. Inr ''run-1''),
      get_default_namespace = (\<lambda>w. None),
      existing_plans_and_devices_from_nspace = (\<lambda>w. None)\<rparr>"

definition flags :: "bool \<Rightarrow> bool \<Rightarrow> ProcedureStepBase" where
  "flags v s = \<lparr>name = Some ''step'', description = None,
                verify_required = v, step_success_required = s\<rparr>"

definition example_plan_step :: ProcedureStep where
  "example_plan_step =
     PlanStep (flags True True)
       \<lparr>plans = [], checks = [], destination = local_dest,
        plan_halt_on_fail = True, require_plan_success = True\<rparr>"

definition example_description_step :: ProcedureStep where
  "example_description_step = DescriptionStep (flags False True)"

text \<open>A group with one child that cannot be prepared and two that can.\<close>

definition example_group :: "bool \<Rightarrow> bool \<Rightarrow> ProcedureStep" where
  "example_group v s =
     ProcedureGroup (flags v s)
       [example_description_step, example_plan_step, example_description_step]"

definition example_prepared_group :: "bool \<Rightarrow> bool \<Rightarrow> Prepared" where
  "example_prepared_group v s =
     PreparedProcedureGroup (new_base example_prep_env None (example_group v s))
       [PreparedDescriptionStep_from_origin example_prep_env (flags False True),
        PreparedDescriptionStep_from_origin example_prep_env (flags False True)]
       [failed_step example_prep_env example_plan_step
          (Exn NotImplementedError ''Step type unsupported: <class 'atef.procedure.PlanStep'>'')]"

definition example_base :: "bool \<Rightarrow> bool \<Rightarrow> Result \<Rightarrow> Result \<Rightarrow> Result \<Rightarrow> PreparedBase" where
  "example_base v s c vr sr =
     \<lparr>p_name = Some ''step'', origin = DescriptionStep (flags v s),
      combined_result = c, verify_result = vr, step_result = sr\<rparr>"

definition failed_result :: Result where
  "failed_result = \<lparr>severity = error, reason = Text ''not as expected''\<rparr>"

definition example_action :: "string \<Rightarrow> PreparedValueToSignal" where
  "example_action p =
     \<lparr>pvts_name = Some p, pvts_signal = Signal p, pvts_value = Some (PInt 5),
      pvts_origin = \<lparr>tgt_name = Some p, device = None, attr = None, pv = Some p,
                     val = Some (PInt 5), timeout = None, settle_time = None\<rparr>,
      pvts_result = \<lparr>severity = internal_error, reason = Text ''step incomplete''\<rparr>\<rparr>"

definition example_criterion :: PreparedSignalComparison where
  "example_criterion =
     \<lparr>psc_name = Some ''equals 5'', psc_signal = Some (Signal ''X''),
      psc_comparison = Some \<lparr>cmp_name = Some ''equals 5''\<rparr>,
      psc_result = \<lparr>severity = internal_error, reason = Text ''step incomplete''\<rparr>\<rparr>"

definition example_set_value_origin :: ProcedureStep where
  "example_set_value_origin =
     SetValueStep (flags False True)
       \<lparr>actions = [], success_criteria = [], halt_on_fail = True,
        require_action_success = True\<rparr>"

definition example_set_value_base :: PreparedBase where
  "example_set_value_base =
     \<lparr>p_name = Some ''step'', origin = example_set_value_origin,
      combined_result = \<lparr>severity = internal_error, reason = Text ''step incomplete''\<rparr>,
      verify_result = \<lparr>severity = internal_error, reason = Text ''step incomplete''\<rparr>,
      step_result = \<lparr>severity = internal_error, reason = Text ''step incomplete''\<rparr>\<rparr>"

definition example_set_value_fields :: PreparedSetValueFields where
  "example_set_value_fields =
     \<lparr>prepared_actions = [example_action ''X'', example_action ''BAD'', example_action ''X''],
      prepare_action_failures = [],
      prepared_criteria = [example_criterion],
      prepare_criteria_failures = []\<rparr>"

definition example_plan :: PreparedPlan where
  "example_plan =
     \<lparr>pp_name = ''scan'',
      pp_origin = \<lparr>po_name = ''scan'', plan = ''count'', args = Some [], kwargs = Some [],
                   fixed_arguments = None\<rparr>,
      pp_item = \<lparr>item_name = ''count'', item_args = Some [], item_kwargs = Some [],
                 item_user_group = ''root''\<rparr>,
      pp_uuid = None,
      pp_result = \<lparr>severity = internal_error, reason = Text ''step incomplete''\<rparr>\<rparr>"

text \<open>
  A step whose only criterion names an unknown PV and holds no comparison: preparing
  the criterion fails, and the handler for that failure raises in turn.
\<close>

definition example_broken_set_value_step :: ProcedureStep where
  "example_broken_set_value_step =
     SetValueStep (flags True True)
       \<lparr>actions = [],
        success_criteria =
          [\<lparr>tgt_name = Some ''check'', device = None, attr = None, pv = Some ''UNKNOWN'',
            comparison = None\<rparr>],
        halt_on_fail = True, require_action_success = True\<rparr>"

definition example_prepared_plan_step :: Prepared where
  "example_prepared_plan_step =
     PreparedPlanStep
       \<lparr>p_name = Some ''step'', origin = example_plan_step,
        combined_result = \<lparr>severity = internal_error, reason = Text ''step incomplete''\<rparr>,
        verify_result = \<lparr>severity = internal_error, reason = Text ''step incomplete''\<rparr>,
        step_result = \<lparr>severity = internal_error, reason = Text ''step incomplete''\<rparr>\<rparr>
       \<lparr>prepared_plans = [example_plan], prepared_plan_failures = [],
        prepared_checks = [], prepared_checks_failures = []\<rparr>"

text \<open>A freshly prepared passive step with the default flags.\<close>

definition example_passive_base :: PreparedBase where
  "example_passive_base =
     \<lparr>p_name = Some ''step'', origin = PassiveStep (flags True True) ''checkout.json'',
      combined_result = \<lparr>severity = internal_error, reason = Text ''step incomplete''\<rparr>,
      verify_result = \<lparr>severity = internal_error, reason = Text ''step incomplete''\<rparr>,
      step_result = \<lparr>severity = internal_error, reason = Text ''step incomplete''\<rparr>\<rparr>"

section \<open>Properties of the aggregation and of the result property\<close>

lemma success_least: "success \<le> (s::Severity)"
  by (simp add: less_eq_Severity_def)

lemma caught_simps [simp]:
  "caught (Inr r) = r"
  "caught (Inl ex) = \<lparr>severity = internal_error, reason = Text (exn_str ex)\<rparr>"
  by (simp_all add: caught_def)

lemma summarize_max:
  "summarize_result_severity all_mode rs =
     (if rs = [] then success else Max (severity ` set rs))"
proof (induction rs)
  case Nil
  show ?case by simp
next
  case (Cons r rs)
  show ?case
  proof (cases "rs = []")
    case True
    then show ?thesis by (simp add: max_absorb1 success_least)
  next
    case False
    with Cons show ?thesis by simp
  qed
qed

lemma step_result_property_snd:
  "snd (step_result_property b) = b\<lparr>combined_result := fst (step_result_property b)\<rparr>"
  by (simp add: step_result_property_def Let_def)

lemma step_result_property_fst_combined:
  "fst (step_result_property (b\<lparr>combined_result := c\<rparr>)) = fst (step_result_property b)"
  by (simp add: step_result_property_def verify_part_def success_part_def Let_def)

lemma step_result_property_idem:
  "step_result_property (snd (step_result_property b)) = step_result_property b"
proof (rule prod_eqI)
  show "fst (step_result_property (snd (step_result_property b))) = fst (step_result_property b)"
    by (simp add: step_result_property_snd step_result_property_fst_combined)
  then show "snd (step_result_property (snd (step_result_property b))) = snd (step_result_property b)"
    by (simp add: step_result_property_snd step_result_property_fst_combined)
qed

lemma step_result_property_severity:
  "severity (fst (step_result_property b)) =
     (if verify_required (step_base (origin b)) then
        (if step_success_required (step_base (origin b))
         then max (severity (verify_result b)) (severity (step_result b))
         else severity (verify_result b))
      else if step_success_required (step_base (origin b)) then severity (step_result b)
      else success)"
  by (simp add: step_result_property_def verify_part_def success_part_def Let_def
        Result_default_def max_absorb1 success_least)

lemma stash_and_return_Inr: "\<exists>r p' w'. stash_and_return x = (Inr r, p', w')"
  by (cases x) (simp add: stash_and_return_def Let_def split: prod.splits)

lemma run_steps_total:
  assumes "\<And>p w. p \<in> set ps \<Longrightarrow> \<exists>r p' w'. run rpr env w p = (Inr r, p', w')"
  shows "\<exists>rs ps' w'. run_steps rpr env w ps = (Inr rs, ps', w')"
  using assms
proof (induction ps arbitrary: w)
  case Nil
  show ?case by simp
next
  case (Cons p ps)
  obtain r p' w1 where r1: "run rpr env w p = (Inr r, p', w1)"
    using Cons.prems [of p w] by auto
  obtain rs ps' w2 where r2: "run_steps rpr env w1 ps = (Inr rs, ps', w2)"
    using Cons.IH [of w1] Cons.prems by auto
  show ?case using r1 r2 by simp
qed

lemma run_total: "\<exists>r p' w'. run rpr env w p = (Inr r, p', w')"
proof (induction p arbitrary: w)
  case (PreparedProcedureGroup b steps fails)
  obtain rs ps' w1 where r: "run_steps rpr env w steps = (Inr rs, ps', w1)"
    using run_steps_total [of steps rpr env w] PreparedProcedureGroup by blast
  show ?case using r by (simp split: prod.splits)
qed (simp_all add: stash_and_return_Inr)

lemma result_property_group:
  "result_property (PreparedProcedureGroup b steps fails) =
     (fst (step_result_property
             (b\<lparr>step_result := group_step_result fails (fst (child_results steps))\<rparr>)),
      PreparedProcedureGroup
        (snd (step_result_property
                (b\<lparr>step_result := group_step_result fails (fst (child_results steps))\<rparr>)))
        (snd (child_results steps)) fails)"
  by (simp split: prod.splits)

lemma result_property_leaf:
  "result_property (PreparedDescriptionStep b) =
     (fst (step_result_property b), PreparedDescriptionStep (snd (step_result_property b)))"
  "result_property (PreparedPassiveStep b pf) =
     (fst (step_result_property b), PreparedPassiveStep (snd (step_result_property b)) pf)"
  "result_property (PreparedSetValueStep b sf) =
     (fst (step_result_property b), PreparedSetValueStep (snd (step_result_property b)) sf)"
  "result_property (PreparedPlanStep b pf') =
     (fst (step_result_property b), PreparedPlanStep (snd (step_result_property b)) pf')"
  by (simp_all split: prod.splits)

lemma child_results_Cons:
  "child_results (p # ps) =
     (fst (result_property p) # fst (child_results ps),
      snd (result_property p) # snd (child_results ps))"
  by (simp split: prod.splits)

lemma child_results_idem:
  assumes "\<And>p. p \<in> set ps \<Longrightarrow> result_property (snd (result_property p)) = result_property p"
  shows "child_results (snd (child_results ps)) = child_results ps"
  using assms
proof (induction ps)
  case Nil
  show ?case by simp
next
  case (Cons p ps)
  have "result_property (snd (result_property p)) = result_property p"
    using Cons.prems by simp
  moreover have "child_results (snd (child_results ps)) = child_results ps"
    using Cons by simp
  ultimately show ?case by (simp add: child_results_Cons del: child_results.simps)
qed

lemma result_property_idem:
  "result_property (snd (result_property p)) = result_property p"
proof (induction p)
  case (PreparedProcedureGroup b steps fails)
  have c: "child_results (snd (child_results steps)) = child_results steps"
    using child_results_idem PreparedProcedureGroup by blast
  define b1 where "b1 = b\<lparr>step_result := group_step_result fails (fst (child_results steps))\<rparr>"
  have s: "(snd (step_result_property b1))\<lparr>step_result := group_step_result fails (fst (child_results steps))\<rparr>
            = snd (step_result_property b1)"
    by (simp add: step_result_property_snd b1_def)
  show ?case
    unfolding result_property_group c snd_conv b1_def [symmetric] s
    by (simp add: step_result_property_idem)
qed (simp_all add: result_property_leaf step_result_property_idem del: result_property.simps)

lemma result_property_base:
  "base (snd (result_property p)) =
     (case p of
        PreparedProcedureGroup b steps fails \<Rightarrow>
          b\<lparr>step_result := group_step_result fails (fst (child_results steps)),
            combined_result := fst (result_property p)\<rparr>
      | _ \<Rightarrow> (base p)\<lparr>combined_result := fst (result_property p)\<rparr>)"
  by (cases p) (simp_all add: result_property_leaf result_property_group step_result_property_snd
       del: result_property.simps)

lemma result_property_severity_flags:
  "severity (fst (result_property p)) =
     (if verify_required (step_base (origin (base p))) then
        (if step_success_required (step_base (origin (base p)))
         then max (severity (verify_result (base p)))
                  (severity (step_result (base (snd (result_property p)))))
         else severity (verify_result (base p)))
      else if step_success_required (step_base (origin (base p)))
      then severity (step_result (base (snd (result_property p))))
      else success)"
  by (cases p) (simp_all add: result_property_leaf result_property_group step_result_property_snd
       step_result_property_severity del: result_property.simps)

section \<open>The claims\<close>

text \<open>
  C1. Under the mode \<open>all_\<close> the aggregate severity of a list of Results is the
  maximum of their severities, and success for the empty list; the Result a group
  without preparation failures builds from its children's Results has that severity.
\<close>

theorem all_mode_severity_is_maximum:
  "summarize_result_severity all_mode [] = success \<and>
   severity (group_step_result [] []) = success \<and>
   (results \<noteq> [] \<longrightarrow>
      summarize_result_severity all_mode results = Max (severity ` set results) \<and>
      severity (group_step_result [] results) = Max (severity ` set results))"
  by (simp add: summarize_max group_step_result_def)

theorem all_mode_severity_is_maximum_witness:
  "[\<lparr>severity = warning, reason = NoReason\<rparr>, failed_result, Result_default] \<noteq> [] \<and>
   summarize_result_severity all_mode
     [\<lparr>severity = warning, reason = NoReason\<rparr>, failed_result, Result_default] = error \<and>
   severity (group_step_result []
     [\<lparr>severity = warning, reason = NoReason\<rparr>, failed_result, Result_default]) = error"
  using all_mode_severity_is_maximum
    [of "[\<lparr>severity = warning, reason = NoReason\<rparr>, failed_result, Result_default]"]
  by (simp add: failed_result_def Result_default_def max_def less_eq_Severity_def)

text \<open>
  C6. When the origin has neither \<open>verify_required\<close> nor \<open>step_success_required\<close>,
  the \<open>result\<close> property of a prepared node is the default Result, of severity
  success, whatever \<open>step_result\<close> and \<open>verify_result\<close> hold.
\<close>

theorem result_success_when_nothing_required:
  assumes "\<not> verify_required (step_base (origin (base p)))"
    and "\<not> step_success_required (step_base (origin (base p)))"
  shows "fst (result_property p) = Result_default \<and> severity (fst (result_property p)) = success"
proof -
  have "fst (step_result_property b) = Result_default"
    if "\<not> verify_required (step_base (origin b))"
      and "\<not> step_success_required (step_base (origin b))" for b
    using that by (simp add: step_result_property_def verify_part_def success_part_def)
  then have "fst (result_property p) = Result_default"
    using assms
    by (cases p) (simp_all add: result_property_leaf result_property_group
          del: result_property.simps)
  then show ?thesis by (simp add: Result_default_def)
qed

theorem result_success_when_nothing_required_witness:
  "\<not> verify_required (step_base (origin (base
       (PreparedDescriptionStep (example_base False False failed_result failed_result failed_result))))) \<and>
   \<not> step_success_required (step_base (origin (base
       (PreparedDescriptionStep (example_base False False failed_result failed_result failed_result))))) \<and>
   severity (step_result (example_base False False failed_result failed_result failed_result)) = error \<and>
   severity (fst (result_property
       (PreparedDescriptionStep (example_base False False failed_result failed_result failed_result))))
     = success"
  using result_success_when_nothing_required
    [of "PreparedDescriptionStep (example_base False False failed_result failed_result failed_result)"]
  by (simp add: example_base_def flags_def failed_result_def Result_default_def)

text \<open>
  C10. The \<open>result\<close> of a FailedStep is its stored \<open>combined_result\<close>, whatever
  is assigned to \<open>verify_result\<close>, \<open>step_result\<close> or the origin (and so to its
  flags); for a FailedStep returned by \<open>from_origin\<close> that severity is internal_error.
\<close>

theorem failed_step_result_is_fixed:
  "FailedStep_result (self\<lparr>f_verify_result := vr, f_step_result := sr, f_origin := orig\<rparr>)
     = f_combined_result self \<and>
   (from_origin env step = Inl self \<longrightarrow>
      severity (FailedStep_result
        (self\<lparr>f_verify_result := vr, f_step_result := sr, f_origin := orig\<rparr>)) = internal_error)"
  by (auto simp: FailedStep_result_def failed_step_def split: sum.splits)

theorem failed_step_result_is_fixed_witness:
  "from_origin example_prep_env example_plan_step
     = Inl (failed_step example_prep_env example_plan_step
              (Exn NotImplementedError ''Step type unsupported: <class 'atef.procedure.PlanStep'>'')) \<and>
   severity (FailedStep_result
     ((failed_step example_prep_env example_plan_step
         (Exn NotImplementedError ''Step type unsupported: <class 'atef.procedure.PlanStep'>''))
        \<lparr>f_verify_result := Result_default, f_step_result := Result_default,
         f_origin := example_description_step\<rparr>)) = internal_error"
  using failed_step_result_is_fixed
    [where self = "failed_step example_prep_env example_plan_step
                     (Exn NotImplementedError ''Step type unsupported: <class 'atef.procedure.PlanStep'>'')"
       and vr = Result_default and sr = Result_default and orig = example_description_step
       and env = example_prep_env and step = example_plan_step]
  by (simp add: example_plan_step_def FailedStep_result_def failed_step_def)

text \<open>
  C2. \<open>from_origin\<close> returns a value in every case. When the preparation it
  dispatches to raises an exception, the value is a FailedStep that carries this
  exception and the origin, with a \<open>combined_result\<close> of severity internal_error whose
  reason names the exception and the step; otherwise it is the prepared step.
\<close>

theorem from_origin_returns_failed_step:
  "(dispatch env step = Inl ex \<longrightarrow>
      (\<exists>failed. from_origin env step = Inl failed \<and>
         f_exception failed = Some ex \<and> f_origin failed = step \<and>
         severity (f_combined_result failed) = internal_error \<and>
         reason (f_combined_result failed) =
           Text (''Failed to instantiate step: '' @ exn_str ex @ ''. Step is: ''
                 @ fmt_opt (name (step_base step)) @ '' (''
                 @ repr_str env (or_empty (description (step_base step))) @ '')''))) \<and>
   (dispatch env step = Inr prepared \<longrightarrow> from_origin env step = Inr prepared)"
  by (simp add: failed_step_def)

theorem from_origin_returns_failed_step_witness:
  "dispatch example_prep_env example_plan_step
     = Inl (Exn NotImplementedError ''Step type unsupported: <class 'atef.procedure.PlanStep'>'') \<and>
   (\<exists>failed. from_origin example_prep_env example_plan_step = Inl failed \<and>
      f_exception failed
        = Some (Exn NotImplementedError ''Step type unsupported: <class 'atef.procedure.PlanStep'>'') \<and>
      severity (f_combined_result failed) = internal_error \<and>
      reason (f_combined_result failed) =
        Text ''Failed to instantiate step: Step type unsupported: <class 'atef.procedure.PlanStep'>. Step is: step (<>)'') \<and>
   dispatch example_prep_env example_broken_set_value_step
     = Inl (no_attribute ''NoneType'' ''name'') \<and>
   (\<exists>failed. from_origin example_prep_env example_broken_set_value_step = Inl failed \<and>
      f_exception failed = Some (no_attribute ''NoneType'' ''name'') \<and>
      severity (f_combined_result failed) = internal_error) \<and>
   dispatch example_prep_env example_description_step
     = Inr (PreparedDescriptionStep_from_origin example_prep_env (flags False True)) \<and>
   from_origin example_prep_env example_description_step
     = Inr (PreparedDescriptionStep_from_origin example_prep_env (flags False True))"
proof -
  have d1: "dispatch example_prep_env example_plan_step
     = Inl (Exn NotImplementedError ''Step type unsupported: <class 'atef.procedure.PlanStep'>'')"
    by (simp add: example_plan_step_def)
  have d2: "dispatch example_prep_env example_broken_set_value_step
     = Inl (no_attribute ''NoneType'' ''name'')"
    by (simp add: example_broken_set_value_step_def PreparedSetValueStep_from_origin_def
          create_prepared_comparison_def to_signal_def example_prep_env_def flags_def)
  have d3: "dispatch example_prep_env example_description_step
     = Inr (PreparedDescriptionStep_from_origin example_prep_env (flags False True))"
    by (simp add: example_description_step_def)
  have n: "fmt_opt (name (step_base example_plan_step)) = ''step''"
    "repr_str example_prep_env (or_empty (description (step_base example_plan_step))) = ''<>''"
    by (simp_all add: example_plan_step_def flags_def example_prep_env_def example_repr_def)
  note t1 = from_origin_returns_failed_step
    [of example_prep_env example_plan_step
        "Exn NotImplementedError ''Step type unsupported: <class 'atef.procedure.PlanStep'>''"]
  note t2 = from_origin_returns_failed_step
    [of example_prep_env example_broken_set_value_step "no_attribute ''NoneType'' ''name''"]
  note t3 = from_origin_returns_failed_step
    [of example_prep_env example_description_step _
        "PreparedDescriptionStep_from_origin example_prep_env (flags False True)"]
  have p1: "\<exists>failed. from_origin example_prep_env example_plan_step = Inl failed \<and>
      f_exception failed
        = Some (Exn NotImplementedError ''Step type unsupported: <class 'atef.procedure.PlanStep'>'') \<and>
      severity (f_combined_result failed) = internal_error \<and>
      reason (f_combined_result failed) =
        Text ''Failed to instantiate step: Step type unsupported: <class 'atef.procedure.PlanStep'>. Step is: step (<>)''"
    using t1 d1 by (auto simp add: n simp del: from_origin.simps dispatch.simps)
  have p2: "\<exists>failed. from_origin example_prep_env example_broken_set_value_step = Inl failed \<and>
      f_exception failed = Some (no_attribute ''NoneType'' ''name'') \<and>
      severity (f_combined_result failed) = internal_error"
    using t2 d2 by blast
  have p3: "from_origin example_prep_env example_description_step
     = Inr (PreparedDescriptionStep_from_origin example_prep_env (flags False True))"
    using t3 d3 by blast
  show ?thesis using d1 d2 d3 p1 p2 p3 by blast
qed

text \<open>
  C8. \<open>PreparedPlan.run\<close> with a destination other than the local one: the plan is
  handed to \<open>run_in_local_RE\<close> all the same, and the error Result assigned first is
  overwritten by a success Result, which is returned.
\<close>

theorem plan_run_remote_destination_reports_success:
  "PreparedPlan_run example_run_env [] example_plan remote_queue =
     (Inr \<lparr>severity = success, reason = NoReason\<rparr>,
      example_plan\<lparr>pp_uuid := Some ''run-1'',
                    pp_result := \<lparr>severity = success, reason = NoReason\<rparr>\<rparr>,
      [LocalRE (pp_item example_plan)])"
  by (simp add: PreparedPlan_run_def example_run_env_def Result_default_def)

lemma run_description:
  "run rpr env w (PreparedDescriptionStep b) =
     (Inr (fst (step_result_property (b\<lparr>step_result := Result_default\<rparr>))),
      PreparedDescriptionStep (snd (step_result_property (b\<lparr>step_result := Result_default\<rparr>))),
      w)"
  by (simp add: stash_and_return_def result_property_leaf del: result_property.simps)

text \<open>
  C9, as stated, fails: with \<open>verify_required\<close> set and a verification Result of
  severity error, \<open>run()\<close> of a prepared description step returns severity error.
\<close>

theorem description_step_run_counterexample:
  "fst (run example_repr example_run_env []
         (PreparedDescriptionStep (example_base True True Result_default failed_result Result_default)))
     = Inr \<lparr>severity = error, reason = Text ''Not Verified (not as expected)''\<rparr>"
  by (simp add: run_description step_result_property_def verify_part_def success_part_def
        example_base_def flags_def failed_result_def Result_default_def max_def
        less_eq_Severity_def Let_def del: run.simps)

text \<open>
  C9, amended. \<open>run()\<close> of a prepared description step never raises, makes no
  outside call and stores a \<open>step_result\<close> of severity success whatever the flags;
  the Result it returns has severity success when \<open>verify_required\<close> is unset, and
  the severity of \<open>verify_result\<close> when it is set.
\<close>

theorem description_step_run:
  "\<exists>r b'. run rpr env w (PreparedDescriptionStep b) = (Inr r, PreparedDescriptionStep b', w) \<and>
      step_result b' = Result_default \<and> severity (step_result b') = success \<and>
      (\<not> verify_required (step_base (origin b)) \<longrightarrow> severity r = success) \<and>
      (verify_required (step_base (origin b)) \<longrightarrow> severity r = severity (verify_result b))"
  by (simp add: run_description step_result_property_snd step_result_property_severity
        Result_default_def max_absorb1 success_least del: run.simps)

theorem description_step_run_witness:
  "\<not> verify_required (step_base (origin (example_base False True failed_result failed_result failed_result))) \<and>
   verify_required (step_base (origin (example_base True False failed_result Result_default failed_result))) \<and>
   (\<exists>r b'. run example_repr example_run_env []
              (PreparedDescriptionStep (example_base False True failed_result failed_result failed_result))
            = (Inr r, PreparedDescriptionStep b', []) \<and>
      step_result b' = Result_default \<and> severity r = success) \<and>
   (\<exists>r b'. run example_repr example_run_env []
              (PreparedDescriptionStep (example_base True False failed_result Result_default failed_result))
            = (Inr r, PreparedDescriptionStep b', []) \<and>
      step_result b' = Result_default \<and> severity r = success)"
  using description_step_run
    [of example_repr example_run_env "[]"
        "example_base False True failed_result failed_result failed_result"]
    description_step_run
    [of example_repr example_run_env "[]"
        "example_base True False failed_result Result_default failed_result"]
  by (auto simp add: example_base_def flags_def Result_default_def)

lemma example_group_prepared:
  "from_origin example_prep_env (example_group v s) = Inr (example_prepared_group v s)"
  by (simp add: example_group_def example_prepared_group_def example_description_step_def
        example_plan_step_def)

text \<open>
  C7, as stated, fails: reading \<open>result\<close> on a freshly prepared group assigns both
  \<open>step_result\<close> and \<open>combined_result\<close>.
\<close>

theorem result_property_counterexample:
  "from_origin example_prep_env (example_group True True) = Inr (example_prepared_group True True) \<and>
   step_result (base (example_prepared_group True True))
     = \<lparr>severity = internal_error, reason = Text ''step incomplete''\<rparr> \<and>
   step_result (base (snd (result_property (example_prepared_group True True))))
     = \<lparr>severity = error, reason = Text ''At least one step failed to initialize''\<rparr> \<and>
   combined_result (base (example_prepared_group True True))
     = \<lparr>severity = internal_error, reason = Text ''step incomplete''\<rparr> \<and>
   combined_result (base (snd (result_property (example_prepared_group True True))))
     = \<lparr>severity = internal_error,
        reason = Text ''Not Verified (step incomplete), Not Successful (At least one step failed to initialize)''\<rparr>"
proof -
  have "step_result (base (example_prepared_group True True))
          = \<lparr>severity = internal_error, reason = Text ''step incomplete''\<rparr> \<and>
        step_result (base (snd (result_property (example_prepared_group True True))))
          = \<lparr>severity = error, reason = Text ''At least one step failed to initialize''\<rparr> \<and>
        combined_result (base (example_prepared_group True True))
          = \<lparr>severity = internal_error, reason = Text ''step incomplete''\<rparr> \<and>
        combined_result (base (snd (result_property (example_prepared_group True True))))
          = \<lparr>severity = internal_error,
             reason = Text ''Not Verified (step incomplete), Not Successful (At least one step failed to initialize)''\<rparr>"
    by (simp add: result_property_base group_step_result_def
          example_prepared_group_def new_base_def example_prep_env_def result_property_group
          step_result_property_def verify_part_def success_part_def example_group_def flags_def
          Let_def max_def less_eq_Severity_def
          del: result_property.simps)
  then show ?thesis using example_group_prepared [of True True] by simp
qed

text \<open>
  C7, amended. Reading \<open>result\<close> leaves \<open>name\<close>, \<open>origin\<close> and
  \<open>verify_result\<close> unchanged and assigns the returned Result to
  \<open>combined_result\<close>. On a step that is not a group nothing else changes. On a group
  it also assigns \<open>step_result\<close> (the aggregate of the children's current results)
  and reads the property of every child; \<open>prepare_failures\<close> is unchanged. A second
  read returns the same Result and changes nothing.
\<close>

theorem result_property_assigns_results_only:
  "p_name (base (snd (result_property p))) = p_name (base p) \<and>
   origin (base (snd (result_property p))) = origin (base p) \<and>
   verify_result (base (snd (result_property p))) = verify_result (base p) \<and>
   combined_result (base (snd (result_property p))) = fst (result_property p) \<and>
   (\<not> is_group p \<longrightarrow>
      snd (result_property p) = set_base p ((base p)\<lparr>combined_result := fst (result_property p)\<rparr>)) \<and>
   (\<forall>b steps fails. p = PreparedProcedureGroup b steps fails \<longrightarrow>
      snd (result_property p) =
        PreparedProcedureGroup
          (b\<lparr>step_result := group_step_result fails (fst (child_results steps)),
             combined_result := fst (result_property p)\<rparr>)
          (snd (child_results steps)) fails) \<and>
   result_property (snd (result_property p)) = result_property p"
proof -
  have 1: "p_name (base (snd (result_property p))) = p_name (base p) \<and>
           origin (base (snd (result_property p))) = origin (base p) \<and>
           verify_result (base (snd (result_property p))) = verify_result (base p) \<and>
           combined_result (base (snd (result_property p))) = fst (result_property p)"
    by (cases p) (simp_all add: result_property_base del: result_property.simps)
  have 2: "\<not> is_group p \<longrightarrow>
      snd (result_property p) = set_base p ((base p)\<lparr>combined_result := fst (result_property p)\<rparr>)"
    by (cases p) (simp_all add: result_property_leaf step_result_property_snd
          del: result_property.simps)
  have 3: "\<forall>b steps fails. p = PreparedProcedureGroup b steps fails \<longrightarrow>
      snd (result_property p) =
        PreparedProcedureGroup
          (b\<lparr>step_result := group_step_result fails (fst (child_results steps)),
             combined_result := fst (result_property p)\<rparr>)
          (snd (child_results steps)) fails"
    by (simp add: result_property_group step_result_property_snd del: result_property.simps)
  show ?thesis using 1 2 3 result_property_idem by blast
qed

lemma base_set_base: "base (set_base p b) = b"
  by (cases p) simp_all

lemma is_group_set_base: "is_group (set_base p b) = is_group p"
  by (cases p) simp_all

lemma run_not_group: "\<not> is_group p \<Longrightarrow> run rpr env w p = stash_and_return (step_run rpr env w p)"
  by (cases p) simp_all

lemma PreparedSetValueStep_run_kind:
  "\<not> is_group (fst (snd (PreparedSetValueStep_run rpr env w b f)))"
  by (simp add: PreparedSetValueStep_run_def Let_def
        split: prod.splits loop_exit.splits option.splits)

lemma PreparedPlanStep_run_kind:
  "\<not> is_group (fst (snd (PreparedPlanStep_run rpr env w b f)))"
  by (simp add: PreparedPlanStep_run_def split: sum.splits option.splits)

lemma step_run_kind: "\<not> is_group p \<Longrightarrow> \<not> is_group (fst (snd (step_run rpr env w p)))"
proof (cases p)
  case (PreparedPassiveStep b pf)
  then show ?thesis by (cases pf) simp_all
qed (simp_all add: PreparedSetValueStep_run_kind PreparedPlanStep_run_kind)

lemma result_property_step_result:
  "\<not> is_group p \<Longrightarrow> step_result (base (snd (result_property p))) = step_result (base p)"
  by (cases p) (simp_all add: result_property_base del: result_property.simps)

lemma stash_and_return_eq:
  "stash_and_return (outcome, p1, w1) =
     (Inr (fst (result_property (set_base p1 ((base p1)\<lparr>step_result := caught outcome\<rparr>)))),
      snd (result_property (set_base p1 ((base p1)\<lparr>step_result := caught outcome\<rparr>))),
      w1)"
  by (simp add: stash_and_return_def split: prod.splits)

text \<open>
  When every outside call returns a Result or raises, as the annotations say, \<open>run()\<close>
  of every prepared node returns a Result. For a node that is not a group,
  \<open>step_result\<close> afterwards is the Result \<open>_run\<close> returned, or an internal_error
  Result whose reason is the message of the exception \<open>_run\<close> raised; and the Result
  returned is the \<open>result\<close> property read after that assignment.
\<close>

lemma run_on_results_returns:
  "\<exists>r p' w'. run rpr env w p = (Inr r, p', w') \<and>
     (\<not> is_group p \<longrightarrow>
        w' = snd (snd (step_run rpr env w p)) \<and>
        (r, p') = result_property
                    (set_base (fst (snd (step_run rpr env w p)))
                       ((base (fst (snd (step_run rpr env w p))))
                          \<lparr>step_result := step_result (base p')\<rparr>)) \<and>
        (\<forall>ex. fst (step_run rpr env w p) = Inl ex \<longrightarrow>
           step_result (base p') = \<lparr>severity = internal_error, reason = Text (exn_str ex)\<rparr>) \<and>
        (\<forall>sr. fst (step_run rpr env w p) = Inr sr \<longrightarrow> step_result (base p') = sr))"
proof (cases "is_group p")
  case True
  then show ?thesis using run_total [of rpr env w p] by auto
next
  case False
  obtain outcome p1 w1 where sr: "step_run rpr env w p = (outcome, p1, w1)"
    by (cases "step_run rpr env w p") auto
  define p2 where "p2 = set_base p1 ((base p1)\<lparr>step_result := caught outcome\<rparr>)"
  have k: "\<not> is_group p2"
    using step_run_kind [OF False, of rpr env w] sr by (simp add: p2_def is_group_set_base)
  have r: "run rpr env w p = (Inr (fst (result_property p2)), snd (result_property p2), w1)"
    using False sr by (simp add: run_not_group stash_and_return_eq p2_def)
  have s: "step_result (base (snd (result_property p2))) = caught outcome"
    using k by (simp add: result_property_step_result) (simp add: p2_def base_set_base)
  show ?thesis
    using r s sr by (auto simp: p2_def caught_def simp del: result_property.simps)
qed

lemma prepare_steps_partition:
  "prepare_steps env steps ps fs =
     (ps @ map projr (filter (\<lambda>x. \<not> isl x) (map (from_origin env) steps)),
      fs @ map projl (filter isl (map (from_origin env) steps)))"
proof (induction steps arbitrary: ps fs)
  case Nil
  show ?case by simp
next
  case (Cons step rest)
  show ?case
    by (cases "from_origin env step") (simp_all add: Cons del: from_origin.simps)
qed

lemma group_from_origin_partition:
  "group_from_origin env b steps =
     PreparedProcedureGroup (new_base env None (ProcedureGroup b steps))
       (map projr (filter (\<lambda>x. \<not> isl x) (map (from_origin env) steps)))
       (map projl (filter isl (map (from_origin env) steps)))"
  by (simp add: prepare_steps_partition del: from_origin.simps)

lemma group_step_result_failures:
  "fails \<noteq> [] \<Longrightarrow> group_step_result fails results =
     \<lparr>severity = error, reason = Text ''At least one step failed to initialize''\<rparr>"
  by (simp add: group_step_result_def)

lemma group_run_eq:
  "\<exists>rs ps' w'. run rpr env w (PreparedProcedureGroup b ps fails) =
     (Inr (fst (step_result_property (b\<lparr>step_result := group_step_result fails rs\<rparr>))),
      PreparedProcedureGroup
        (snd (step_result_property (b\<lparr>step_result := group_step_result fails rs\<rparr>)))
        ps' fails,
      w')"
proof -
  obtain rs ps1 w1 where r: "run_steps rpr env w ps = (Inr rs, ps1, w1)"
    using run_steps_total [of ps rpr env w] run_total by blast
  show ?thesis
    using r by (auto simp add: result_property_group simp del: result_property.simps)
qed

lemma failed_group_severity:
  assumes "severity (step_result b) = error"
  shows "(step_success_required (step_base (origin b)) \<and>
            (\<not> verify_required (step_base (origin b)) \<or> severity (verify_result b) \<le> error)
          \<longrightarrow> severity (fst (step_result_property b)) = error) \<and>
         (step_success_required (step_base (origin b))
          \<longrightarrow> error \<le> severity (fst (step_result_property b))) \<and>
         (\<not> step_success_required (step_base (origin b)) \<and>
            \<not> verify_required (step_base (origin b))
          \<longrightarrow> severity (fst (step_result_property b)) = success)"
  using assms by (auto simp: step_result_property_severity max_def)

text \<open>
  C4, amended. Preparing a group prepares every child: \<open>steps\<close> holds the children
  that were prepared and \<open>prepare_failures\<close> those that were not, each in the order
  of the origin. When \<open>prepare_failures\<close> is not empty, \<open>run()\<close> and \<open>result\<close>
  store a \<open>step_result\<close> of severity error whatever the children did; what they
  report is at least error when \<open>step_success_required\<close> is set, exactly error when
  moreover \<open>verify_required\<close> is unset or \<open>verify_result\<close> is no worse than
  error, and success when neither flag is set.
\<close>

theorem group_preparation_and_failures:
  "steps_of (group_from_origin env b steps)
     = map projr (filter (\<lambda>x. \<not> isl x) (map (from_origin env) steps)) \<and>
   prepare_failures_of (group_from_origin env b steps)
     = map projl (filter isl (map (from_origin env) steps)) \<and>
   (fails \<noteq> [] \<longrightarrow>
      (\<exists>r g' w'. run rpr renv w (PreparedProcedureGroup pb ps fails) = (Inr r, g', w') \<and>
         severity (step_result (base g')) = error \<and>
         (step_success_required (step_base (origin pb)) \<and>
            (\<not> verify_required (step_base (origin pb)) \<or> severity (verify_result pb) \<le> error)
          \<longrightarrow> severity r = error) \<and>
         (step_success_required (step_base (origin pb)) \<longrightarrow> error \<le> severity r) \<and>
         (\<not> step_success_required (step_base (origin pb)) \<and>
            \<not> verify_required (step_base (origin pb))
          \<longrightarrow> severity r = success)) \<and>
      severity (step_result (base (snd (result_property (PreparedProcedureGroup pb ps fails)))))
        = error \<and>
      (step_success_required (step_base (origin pb)) \<and>
         (\<not> verify_required (step_base (origin pb)) \<or> severity (verify_result pb) \<le> error)
       \<longrightarrow> severity (fst (result_property (PreparedProcedureGroup pb ps fails))) = error) \<and>
      (step_success_required (step_base (origin pb))
       \<longrightarrow> error \<le> severity (fst (result_property (PreparedProcedureGroup pb ps fails)))) \<and>
      (\<not> step_success_required (step_base (origin pb)) \<and>
         \<not> verify_required (step_base (origin pb))
       \<longrightarrow> severity (fst (result_property (PreparedProcedureGroup pb ps fails))) = success))"
proof -
  have prep: "steps_of (group_from_origin env b steps)
       = map projr (filter (\<lambda>x. \<not> isl x) (map (from_origin env) steps)) \<and>
     prepare_failures_of (group_from_origin env b steps)
       = map projl (filter isl (map (from_origin env) steps))"
    by (simp add: group_from_origin_partition
          del: group_from_origin.simps from_origin.simps)
  have rest: ?thesis if f: "fails \<noteq> []"
  proof -
    let ?E = "\<lparr>severity = error, reason = Text ''At least one step failed to initialize''\<rparr>"
    let ?b = "pb\<lparr>step_result := ?E\<rparr>"
    have sev: "severity (step_result ?b) = error" by simp
    note fg = failed_group_severity [OF sev]
    obtain rs ps' w' where
      r: "run rpr renv w (PreparedProcedureGroup pb ps fails) =
            (Inr (fst (step_result_property ?b)),
             PreparedProcedureGroup (snd (step_result_property ?b)) ps' fails, w')"
      using group_run_eq [of rpr renv w pb ps fails] f
      by (auto simp: group_step_result_failures simp del: run.simps)
    have g: "severity (step_result (snd (step_result_property ?b))) = error"
      by (simp add: step_result_property_snd)
    have rp: "result_property (PreparedProcedureGroup pb ps fails) =
                (fst (step_result_property ?b),
                 PreparedProcedureGroup (snd (step_result_property ?b))
                   (snd (child_results ps)) fails)"
      using f by (simp add: result_property_group group_step_result_failures
            del: result_property.simps)
    show ?thesis
      unfolding rp r using prep fg g by simp
  qed
  show ?thesis
  proof (cases "fails = []")
    case True
    then show ?thesis using prep by simp
  next
    case False
    then show ?thesis by (rule rest)
  qed
qed

lemma example_group_run:
  "fst (run example_repr example_run_env [] (example_prepared_group v s)) =
     Inr (fst (step_result_property
       ((new_base example_prep_env None (example_group v s))
          \<lparr>step_result := \<lparr>severity = error,
                           reason = Text ''At least one step failed to initialize''\<rparr>\<rparr>)))"
  by (simp add: example_prepared_group_def PreparedDescriptionStep_from_origin_def
        stash_and_return_def result_property_leaf result_property_group child_results_Cons
        group_step_result_def
        del: result_property.simps child_results.simps split: prod.splits)

text \<open>
  C4, as stated, fails: a group with neither flag set, one child that cannot be
  prepared and two that can, reports success from \<open>run()\<close> and from \<open>result\<close>.
\<close>

theorem group_failure_counterexample:
  "from_origin example_prep_env (example_group False False)
     = Inr (example_prepared_group False False) \<and>
   length (prepare_failures_of (example_prepared_group False False)) = 1 \<and>
   length (steps_of (example_prepared_group False False)) = 2 \<and>
   fst (run example_repr example_run_env [] (example_prepared_group False False))
     = Inr \<lparr>severity = success, reason = NoReason\<rparr> \<and>
   fst (result_property (example_prepared_group False False))
     = \<lparr>severity = success, reason = NoReason\<rparr>"
proof -
  have "fst (run example_repr example_run_env [] (example_prepared_group False False))
     = Inr \<lparr>severity = success, reason = NoReason\<rparr>"
    by (simp add: example_group_run step_result_property_def verify_part_def success_part_def
          new_base_def example_group_def flags_def Result_default_def del: run.simps)
  moreover have "fst (result_property (example_prepared_group False False))
     = \<lparr>severity = success, reason = NoReason\<rparr>"
    by (simp add: example_prepared_group_def result_property_group
          step_result_property_def verify_part_def success_part_def
          new_base_def example_group_def flags_def Result_default_def
          del: result_property.simps)
  moreover have "length (prepare_failures_of (example_prepared_group False False)) = 1"
    "length (steps_of (example_prepared_group False False)) = 2"
    by (simp_all add: example_prepared_group_def)
  ultimately show ?thesis using example_group_prepared [of False False] by simp
qed

theorem group_preparation_and_failures_witness:
  "[failed_step example_prep_env example_plan_step
      (Exn NotImplementedError ''Step type unsupported: <class 'atef.procedure.PlanStep'>'')] \<noteq> [] \<and>
   step_success_required (step_base (origin (new_base example_prep_env None (example_group False True)))) \<and>
   \<not> verify_required (step_base (origin (new_base example_prep_env None (example_group False True)))) \<and>
   \<not> step_success_required (step_base (origin (new_base example_prep_env None (example_group False False)))) \<and>
   \<not> verify_required (step_base (origin (new_base example_prep_env None (example_group False False)))) \<and>
   length (steps_of (group_from_origin example_prep_env (flags False True)
       [example_description_step, example_plan_step, example_description_step])) = 2 \<and>
   length (prepare_failures_of (group_from_origin example_prep_env (flags False True)
       [example_description_step, example_plan_step, example_description_step])) = 1 \<and>
   severity (fst (result_property (example_prepared_group False True))) = error \<and>
   (\<exists>r g' w'. run example_repr example_run_env [] (example_prepared_group False True)
                 = (Inr r, g', w') \<and> severity r = error) \<and>
   severity (fst (result_property (example_prepared_group False False))) = success"
proof -
  let ?ex = "Exn NotImplementedError ''Step type unsupported: <class 'atef.procedure.PlanStep'>''"
  let ?ps = "[PreparedDescriptionStep_from_origin example_prep_env (flags False True),
              PreparedDescriptionStep_from_origin example_prep_env (flags False True)]"
  let ?fs = "[failed_step example_prep_env example_plan_step ?ex]"
  have o1: "step_base (origin (new_base example_prep_env None (example_group v s))) = flags v s"
    for v s by (simp add: new_base_def example_group_def)
  have d: "from_origin example_prep_env example_description_step
             = Inr (PreparedDescriptionStep_from_origin example_prep_env (flags False True))"
    "from_origin example_prep_env example_plan_step
             = Inl (failed_step example_prep_env example_plan_step ?ex)"
    by (simp_all add: example_description_step_def example_plan_step_def)
  note t1 = group_preparation_and_failures
    [of example_prep_env "flags False True"
        "[example_description_step, example_plan_step, example_description_step]"
        ?fs example_repr example_run_env "[]"
        "new_base example_prep_env None (example_group False True)" ?ps]
  note t2 = group_preparation_and_failures
    [of example_prep_env "flags False False"
        "[example_description_step, example_plan_step, example_description_step]"
        ?fs example_repr example_run_env "[]"
        "new_base example_prep_env None (example_group False False)" ?ps]
  show ?thesis
    using t1 t2
    by (simp add: o1 d flags_def example_prepared_group_def
          del: from_origin.simps group_from_origin.simps run.simps result_property.simps) blast
qed

lemma PreparedValueToSignal_run_success:
  "severity (fst (PreparedValueToSignal_run env w a)) = success \<Longrightarrow>
     PreparedValueToSignal_run env w a =
       (Result_default, a\<lparr>pvts_result := Result_default\<rparr>, w @ [set_call a])"
  by (simp add: PreparedValueToSignal_run_def Let_def Result_default_def split: option.splits)

lemma PreparedValueToSignal_run_parts:
  "PreparedValueToSignal_run env w a =
     (fst (PreparedValueToSignal_run env w a),
      a\<lparr>pvts_result := fst (PreparedValueToSignal_run env w a)\<rparr>,
      w @ [set_call a])"
  by (simp add: PreparedValueToSignal_run_def Let_def split: option.splits)

lemma run_actions_halts:
  assumes "origin_halt_on_fail orig = Inr True"
    and "\<forall>i<length pre.
           severity (fst (PreparedValueToSignal_run env (w @ map set_call (take i pre)) (pre ! i)))
             = success"
    and "severity (fst (PreparedValueToSignal_run env (w @ map set_call pre) a)) > success"
  shows "run_actions env orig w (pre @ a # post) =
           (Halted (a\<lparr>pvts_result := fst (PreparedValueToSignal_run env (w @ map set_call pre) a)\<rparr>),
            map (\<lambda>x. x\<lparr>pvts_result := Result_default\<rparr>) pre
              @ a\<lparr>pvts_result := fst (PreparedValueToSignal_run env (w @ map set_call pre) a)\<rparr>
              # post,
            w @ map set_call pre @ [set_call a])"
  using assms
proof (induction pre arbitrary: w)
  case Nil
  define r where "r = fst (PreparedValueToSignal_run env w a)"
  have p: "PreparedValueToSignal_run env w a = (r, a\<lparr>pvts_result := r\<rparr>, w @ [set_call a])"
    unfolding r_def by (rule PreparedValueToSignal_run_parts)
  have "success < severity r" using Nil.prems(3) by (simp add: r_def)
  then have "run_actions env orig w ([] @ a # post) =
      (Halted (a\<lparr>pvts_result := r\<rparr>), a\<lparr>pvts_result := r\<rparr> # post, w @ [set_call a])"
    using Nil.prems(1) by (simp add: p)
  then show ?case by (simp add: r_def)
next
  case (Cons x pre)
  have "severity (fst (PreparedValueToSignal_run env w x)) = success"
    using Cons.prems(2) by force
  then have x: "PreparedValueToSignal_run env w x =
       (Result_default, x\<lparr>pvts_result := Result_default\<rparr>, w @ [set_call x])"
    by (rule PreparedValueToSignal_run_success)
  have h2: "\<forall>i<length pre.
           severity (fst (PreparedValueToSignal_run env ((w @ [set_call x]) @ map set_call (take i pre))
             (pre ! i))) = success"
  proof (intro allI impI)
    fix i assume "i < length pre"
    then have "Suc i < length (x # pre)" by simp
    from Cons.prems(2) [rule_format, OF this] show
      "severity (fst (PreparedValueToSignal_run env ((w @ [set_call x]) @ map set_call (take i pre))
             (pre ! i))) = success"
      by simp
  qed
  have h3: "severity (fst (PreparedValueToSignal_run env ((w @ [set_call x]) @ map set_call pre) a))
              > success"
    using Cons.prems(3) by simp
  note ih = Cons.IH [OF Cons.prems(1) h2 h3]
  show ?case
    using x ih Cons.prems(1) by (simp add: Result_default_def)
qed

text \<open>
  C5. With \<open>halt_on_fail\<close> set, when an action's run returns a severity above success
  (the actions before it having succeeded), \<open>_run\<close> returns a Result of severity
  error and stores it in \<open>step_result\<close>; the outside calls made are the writes of
  the actions up to that one and nothing else, so no later action is run and no
  criterion is compared; the later actions and the criteria are left as they were.
\<close>

theorem set_value_halts_on_failed_action:
  assumes "origin_halt_on_fail (origin b) = Inr True"
    and "prepared_actions f = pre @ a # post"
    and "\<forall>i<length pre.
           severity (fst (PreparedValueToSignal_run env (w @ map set_call (take i pre)) (pre ! i)))
             = success"
    and "severity (fst (PreparedValueToSignal_run env (w @ map set_call pre) a)) > success"
  shows "PreparedSetValueStep_run rpr env w b f =
           (Inr \<lparr>severity = error,
                 reason = Text (''action failed ('' @ fmt_opt (pvts_name a) @ ''), step halted'')\<rparr>,
            PreparedSetValueStep
              (b\<lparr>step_result :=
                   \<lparr>severity = error,
                    reason = Text (''action failed ('' @ fmt_opt (pvts_name a)
                               @ ''), step halted'')\<rparr>\<rparr>)
              (f\<lparr>prepared_actions :=
                   map (\<lambda>x. x\<lparr>pvts_result := Result_default\<rparr>) pre
                   @ a\<lparr>pvts_result :=
                         fst (PreparedValueToSignal_run env (w @ map set_call pre) a)\<rparr>
                   # post\<rparr>),
            w @ map set_call pre @ [set_call a])"
  using run_actions_halts [OF assms(1) assms(3) assms(4), of post] assms(2)
  by (simp add: PreparedSetValueStep_run_def Let_def)

theorem set_value_halts_on_failed_action_witness:
  "origin_halt_on_fail (origin example_set_value_base) = Inr True \<and>
   prepared_actions example_set_value_fields
     = [example_action ''X''] @ example_action ''BAD'' # [example_action ''X''] \<and>
   severity (fst (PreparedValueToSignal_run example_run_env [] (example_action ''X'')))
     = success \<and>
   severity (fst (PreparedValueToSignal_run example_run_env
      ([] @ map set_call [example_action ''X'']) (example_action ''BAD''))) > success \<and>
   PreparedSetValueStep_run example_repr example_run_env [] example_set_value_base
       example_set_value_fields =
     (Inr \<lparr>severity = error, reason = Text ''action failed (BAD), step halted''\<rparr>,
      PreparedSetValueStep
        (example_set_value_base
           \<lparr>step_result := \<lparr>severity = error,
                            reason = Text ''action failed (BAD), step halted''\<rparr>\<rparr>)
        (example_set_value_fields
           \<lparr>prepared_actions :=
              [(example_action ''X'')\<lparr>pvts_result := Result_default\<rparr>,
               (example_action ''BAD'')
                 \<lparr>pvts_result := \<lparr>severity = error,
                                   reason = Raised (Exn OtherException ''write failed'')\<rparr>\<rparr>,
               example_action ''X'']\<rparr>),
      [set_call (example_action ''X''), set_call (example_action ''BAD'')])"
proof -
  have h1: "origin_halt_on_fail (origin example_set_value_base) = Inr True"
    by (simp add: example_set_value_base_def example_set_value_origin_def)
  have h2: "prepared_actions example_set_value_fields
     = [example_action ''X''] @ example_action ''BAD'' # [example_action ''X'']"
    by (simp add: example_set_value_fields_def)
  have h3: "\<forall>i<length [example_action ''X''].
      severity (fst (PreparedValueToSignal_run example_run_env
         ([] @ map set_call (take i [example_action ''X''])) ([example_action ''X''] ! i)))
        = success"
    by (simp add: PreparedValueToSignal_run_def example_run_env_def example_action_def
          Result_default_def)
  have bad: "fst (PreparedValueToSignal_run example_run_env
      ([] @ map set_call [example_action ''X'']) (example_action ''BAD''))
      = \<lparr>severity = error, reason = Raised (Exn OtherException ''write failed'')\<rparr>"
    by (simp add: PreparedValueToSignal_run_def example_run_env_def example_action_def Let_def)
  have h4: "severity (fst (PreparedValueToSignal_run example_run_env
      ([] @ map set_call [example_action ''X'']) (example_action ''BAD''))) > success"
    using bad by (simp add: less_Severity_def)
  have n: "fmt_opt (pvts_name (example_action ''BAD'')) = ''BAD''"
    by (simp add: example_action_def)
  show ?thesis
    using set_value_halts_on_failed_action [OF h1 h2 h3 h4, of example_repr] h1 h2 h3 h4
    by (simp only: bad n) simp
qed

lemma run_on_results_returns_example:
  "\<not> is_group example_prepared_plan_step \<and>
   fst (step_run example_repr example_run_env [] example_prepared_plan_step)
     = Inl (no_attribute ''PreparedPlanStep'' ''prep_plans'') \<and>
   (\<exists>r p' w'. run example_repr example_run_env [] example_prepared_plan_step = (Inr r, p', w') \<and>
      step_result (base p') =
        \<lparr>severity = internal_error,
         reason = Text (exn_str (no_attribute ''PreparedPlanStep'' ''prep_plans''))\<rparr>) \<and>
   \<not> is_group (PreparedDescriptionStep (example_base False True failed_result failed_result failed_result)) \<and>
   fst (step_run example_repr example_run_env []
          (PreparedDescriptionStep (example_base False True failed_result failed_result failed_result)))
     = Inr Result_default \<and>
   (\<exists>r p' w'. run example_repr example_run_env []
          (PreparedDescriptionStep (example_base False True failed_result failed_result failed_result))
        = (Inr r, p', w') \<and> step_result (base p') = Result_default)"
proof -
  have a: "\<not> is_group example_prepared_plan_step"
    by (simp add: example_prepared_plan_step_def)
  have b: "fst (step_run example_repr example_run_env [] example_prepared_plan_step)
     = Inl (no_attribute ''PreparedPlanStep'' ''prep_plans'')"
    by (simp add: example_prepared_plan_step_def PreparedPlanStep_run_def example_plan_step_def
          example_run_env_def)
  have c: "fst (step_run example_repr example_run_env []
          (PreparedDescriptionStep (example_base False True failed_result failed_result failed_result)))
     = Inr Result_default"
    by simp
  show ?thesis
    using run_on_results_returns [of example_repr example_run_env "[]" example_prepared_plan_step]
      run_on_results_returns [of example_repr example_run_env "[]"
        "PreparedDescriptionStep (example_base False True failed_result failed_result failed_result)"]
      a b c
    by (auto simp del: run.simps step_run.simps result_property.simps)
qed

theorem result_property_assigns_results_only_witness:
  "\<not> is_group (PreparedDescriptionStep (example_base True True Result_default failed_result Result_default)) \<and>
   snd (result_property
     (PreparedDescriptionStep (example_base True True Result_default failed_result Result_default)))
     = PreparedDescriptionStep
         (example_base True True
            \<lparr>severity = error, reason = Text ''Not Verified (not as expected)''\<rparr>
            failed_result Result_default) \<and>
   result_property (snd (result_property
     (PreparedDescriptionStep (example_base True True Result_default failed_result Result_default))))
     = result_property
         (PreparedDescriptionStep (example_base True True Result_default failed_result Result_default)) \<and>
   snd (result_property (example_prepared_group True True)) =
     PreparedProcedureGroup
       ((new_base example_prep_env None (example_group True True))
          \<lparr>step_result := group_step_result
               [failed_step example_prep_env example_plan_step
                  (Exn NotImplementedError
                     ''Step type unsupported: <class 'atef.procedure.PlanStep'>'')]
               (fst (child_results
                  [PreparedDescriptionStep_from_origin example_prep_env (flags False True),
                   PreparedDescriptionStep_from_origin example_prep_env (flags False True)])),
           combined_result := fst (result_property (example_prepared_group True True))\<rparr>)
       (snd (child_results
          [PreparedDescriptionStep_from_origin example_prep_env (flags False True),
           PreparedDescriptionStep_from_origin example_prep_env (flags False True)]))
       [failed_step example_prep_env example_plan_step
          (Exn NotImplementedError ''Step type unsupported: <class 'atef.procedure.PlanStep'>'')]"
proof -
  let ?d = "PreparedDescriptionStep (example_base True True Result_default failed_result Result_default)"
  have f: "fst (result_property ?d)
             = \<lparr>severity = error, reason = Text ''Not Verified (not as expected)''\<rparr>"
    by (simp add: result_property_leaf step_result_property_def verify_part_def success_part_def
          example_base_def flags_def failed_result_def Result_default_def max_def
          less_eq_Severity_def Let_def del: result_property.simps)
  have e: "(example_base True True Result_default failed_result Result_default)
             \<lparr>combined_result := \<lparr>severity = error, reason = Text ''Not Verified (not as expected)''\<rparr>\<rparr>
           = example_base True True
               \<lparr>severity = error, reason = Text ''Not Verified (not as expected)''\<rparr>
               failed_result Result_default"
    by (simp add: example_base_def)
  have g: "example_prepared_group True True =
     PreparedProcedureGroup (new_base example_prep_env None (example_group True True))
       [PreparedDescriptionStep_from_origin example_prep_env (flags False True),
        PreparedDescriptionStep_from_origin example_prep_env (flags False True)]
       [failed_step example_prep_env example_plan_step
          (Exn NotImplementedError ''Step type unsupported: <class 'atef.procedure.PlanStep'>'')]"
    by (simp add: example_prepared_group_def)
  note t1 = result_property_assigns_results_only [of ?d]
  note t2 = result_property_assigns_results_only [of "example_prepared_group True True"]
  have 1: "\<not> is_group ?d" by simp
  have 2: "snd (result_property ?d) = PreparedDescriptionStep
         (example_base True True
            \<lparr>severity = error, reason = Text ''Not Verified (not as expected)''\<rparr>
            failed_result Result_default)"
    using t1 1 by (simp add: f e del: result_property.simps)
  have 3: "result_property (snd (result_property ?d)) = result_property ?d"
    using t1 by blast
  have 4: "snd (result_property (example_prepared_group True True)) =
     PreparedProcedureGroup
       ((new_base example_prep_env None (example_group True True))
          \<lparr>step_result := group_step_result
               [failed_step example_prep_env example_plan_step
                  (Exn NotImplementedError
                     ''Step type unsupported: <class 'atef.procedure.PlanStep'>'')]
               (fst (child_results
                  [PreparedDescriptionStep_from_origin example_prep_env (flags False True),
                   PreparedDescriptionStep_from_origin example_prep_env (flags False True)])),
           combined_result := fst (result_property (example_prepared_group True True))\<rparr>)
       (snd (child_results
          [PreparedDescriptionStep_from_origin example_prep_env (flags False True),
           PreparedDescriptionStep_from_origin example_prep_env (flags False True)]))
       [failed_step example_prep_env example_plan_step
          (Exn NotImplementedError ''Step type unsupported: <class 'atef.procedure.PlanStep'>'')]"
    using t2 g by blast
  show ?thesis using 1 2 3 4 by blast
qed

section \<open>What \<open>run\<close> does with a value that is no Result\<close>

text \<open>
  On Results the definitions of the last section agree with the ones used so far.
\<close>

lemma stored_result_property_typed:
  "stored_result_property (stored b) =
     (Inr (fst (step_result_property b)), stored (snd (step_result_property b)))"
  by (simp add: stored_result_property_def stored_verify_part_def stored_success_part_def
        stored_def step_result_property_def verify_part_def success_part_def Let_def)

lemma stored_step_result_update:
  "(stored b)\<lparr>s_step_result := Some r\<rparr> = stored (b\<lparr>step_result := r\<rparr>)"
  by (simp add: stored_def)

lemma stored_run_typed:
  "stored_run (map_sum id Some outcome) (stored b) =
     (Inr (fst (step_result_property (b\<lparr>step_result := caught outcome\<rparr>))),
      stored (snd (step_result_property (b\<lparr>step_result := caught outcome\<rparr>))))"
  by (cases outcome)
     (simp_all add: stored_run_def stored_step_result_update stored_result_property_typed)

lemma result_property_not_group:
  "\<not> is_group p \<Longrightarrow> fst (result_property p) = fst (step_result_property (base p))"
  by (cases p) (simp_all add: result_property_leaf del: result_property.simps)

lemma run_agrees_with_stored_run:
  assumes "\<not> is_group p"
  shows "fst (run rpr env w p) =
           fst (stored_run (map_sum id Some (fst (step_run rpr env w p)))
                  (stored (base (fst (snd (step_run rpr env w p))))))"
proof -
  obtain outcome p1 w1 where sr: "step_run rpr env w p = (outcome, p1, w1)"
    by (cases "step_run rpr env w p") auto
  have k: "\<not> is_group (set_base p1 ((base p1)\<lparr>step_result := caught outcome\<rparr>))"
    using step_run_kind [OF assms, of rpr env w] sr by (simp add: is_group_set_base)
  show ?thesis
    using assms sr
    by (simp add: run_not_group stash_and_return_eq stored_run_typed
          result_property_not_group [OF k] base_set_base del: result_property.simps)
qed

lemma stored_run_raises_iff:
  "(\<exists>ex. fst (stored_run after_run self) = Inl ex) \<longleftrightarrow>
     (verify_required (step_base (s_origin self)) \<and> s_verify_result self = None) \<or>
     (step_success_required (step_base (s_origin self)) \<and> after_run = Inr None)"
  by (cases after_run)
     (auto simp: stored_run_def stored_result_property_def stored_verify_part_def
        stored_success_part_def Let_def split: option.splits sum.splits prod.splits if_splits)

text \<open>
  C3. \<open>run()\<close> can raise. A prepared passive step with the default flags has a
  prepared file; \<open>run_passive_step\<close> returns \<open>None\<close>; \<open>_run\<close> returns that
  \<open>None\<close> without raising, so the handler of \<open>run\<close> is not entered;
  \<open>step_result\<close> becomes \<open>None\<close>, and the property read after the \<open>try\<close>
  raises AttributeError out of \<open>run()\<close>.
\<close>

theorem run_raises_when_run_returns_none:
  "stored_run (PreparedPassiveStep_run_value (Some (PreparedFile ''checkout.json'')) (Inr None))
     (stored example_passive_base)
   = (Inl (no_attribute ''NoneType'' ''severity''),
      (stored example_passive_base)\<lparr>s_step_result := None\<rparr>)"
  by (simp add: stored_run_def PreparedPassiveStep_run_value_def stored_result_property_def
        stored_verify_part_def stored_success_part_def stored_def example_passive_base_def
        flags_def)

end
